theory Spec2Isabelle
  imports Complex_Main "HOL-Library.Multiset"
begin

section \<open>Data model\<close>

text \<open>
  \<^verbatim>\<open>interface NavData { date: string; nav: string }\<close> (types/index.ts).  The engine
  reads the two strings only through \<^verbatim>\<open>parseNavDate(entry.date).getTime()\<close> and
  \<^verbatim>\<open>parseFloat(entry.nav)\<close>, so a record of the model carries these two parsed
  numbers: \<open>date\<close> is the millisecond time stamp of the parsed date, \<open>nav\<close> the
  parsed valuation.  JavaScript numbers are modelled as exact numbers (\<open>int\<close> for time
  stamps, \<open>real\<close> for money and units); records whose strings do not parse (\<open>NaN\<close>) are
  outside this type.
\<close>

record NavData =
  date :: int
  nav :: real

text \<open>\<^verbatim>\<open>Math.abs(entryDate.getTime() - targetDate.getTime())\<close>\<close>

definition timeDiff :: "NavData \<Rightarrow> int \<Rightarrow> int" where
  "timeDiff entry targetTime = \<bar>date entry - targetTime\<bar>"

text \<open>
  \<^verbatim>\<open>diff < minDiff\<close>, where \<open>minDiff\<close> starts as \<^verbatim>\<open>Infinity\<close>: the model writes
  \<open>None\<close> for \<^verbatim>\<open>Infinity\<close>.
\<close>

fun below :: "int \<Rightarrow> int option \<Rightarrow> bool" where
  "below diff None = True"
| "below diff (Some minDiff) = (diff < minDiff)"

section \<open>Nearest-date lookup\<close>

text \<open>
  The loop of \<^verbatim>\<open>findNearestNav\<close> in components/SipCalculator.tsx, with its two
  variables \<open>nearest\<close> (\<open>None\<close> is \<^verbatim>\<open>null\<close>) and \<open>minDiff\<close>:
  \<^verbatim>\<open>
  for (const entry of navData) {
      const diff = Math.abs(entryDate.getTime() - targetDate.getTime());
      if (diff < minDiff) { minDiff = diff; nearest = entry; }
  }
  return nearest;
  \<close>
\<close>

fun scanNearest :: "NavData list \<Rightarrow> int \<Rightarrow> NavData option \<Rightarrow> int option \<Rightarrow> NavData option" where
  "scanNearest [] targetTime nearest minDiff = nearest"
| "scanNearest (entry # rest) targetTime nearest minDiff =
     (let diff = timeDiff entry targetTime in
      if below diff minDiff then scanNearest rest targetTime (Some entry) (Some diff)
      else scanNearest rest targetTime nearest minDiff)"

definition findNearestNav :: "NavData list \<Rightarrow> int \<Rightarrow> NavData option" where
  "findNearestNav navData targetTime = scanNearest navData targetTime None None"

text \<open>
  The loop of the second \<^verbatim>\<open>findNearestNav\<close>, the one of services/mfApi.ts, which
  leaves the scan at the first entry dated after the target once \<open>nearest\<close> is set:
  \<^verbatim>\<open>
  for (const entry of sortedNav) {
      const diff = Math.abs(entryDate.getTime() - targetTime);
      if (diff < minDiff) { minDiff = diff; nearest = entry; }
      if (entryDate.getTime() > targetTime && nearest) { break; }
  }
  return nearest;
  \<close>
\<close>

fun scanNearestBreak :: "NavData list \<Rightarrow> int \<Rightarrow> NavData option \<Rightarrow> int option \<Rightarrow> NavData option" where
  "scanNearestBreak [] targetTime nearest minDiff = nearest"
| "scanNearestBreak (entry # rest) targetTime nearest minDiff =
     (let diff = timeDiff entry targetTime;
          nearest' = (if below diff minDiff then Some entry else nearest);
          minDiff' = (if below diff minDiff then Some diff else minDiff)
      in if date entry > targetTime \<and> nearest' \<noteq> None then nearest'
         else scanNearestBreak rest targetTime nearest' minDiff')"

definition findNearestNav_mfApi :: "NavData list \<Rightarrow> int \<Rightarrow> NavData option" where
  "findNearestNav_mfApi sortedNav targetTime = scanNearestBreak sortedNav targetTime None None"

text \<open>A sequence of records in ascending date order (equal dates allowed).\<close>

definition ascending :: "NavData list \<Rightarrow> bool" where
  "ascending navData = sorted_wrt (\<lambda>a b. date a \<le> date b) navData"

definition descending :: "NavData list \<Rightarrow> bool" where
  "descending navData = sorted_wrt (\<lambda>a b. date b \<le> date a) navData"

section \<open>The clock and the calendar\<close>

text \<open>
  The JavaScript runtime's \<^verbatim>\<open>Date\<close> is not part of the repository; what the engine
  reads from it is a parameter of the model:
  \<^item> \<open>getTime y m d\<close> is the time stamp of local midnight on day \<open>d\<close> of month \<open>m\<close>
    (0-based) of year \<open>y\<close>;
  \<^item> \<open>nowYear\<close> and \<open>nowMonth\<close> are \<^verbatim>\<open>new Date().getFullYear()\<close> and
    \<^verbatim>\<open>new Date().getMonth()\<close>;
  \<^item> \<open>cutoffTime n\<close> is the time stamp of \<^verbatim>\<open>new Date()\<close> after
    \<^verbatim>\<open>setMonth(getMonth() - n)\<close>.
\<close>

record Env =
  getTime :: "int \<Rightarrow> int \<Rightarrow> int \<Rightarrow> int"
  nowYear :: int
  nowMonth :: int
  cutoffTime :: "nat \<Rightarrow> int"

text \<open>
  Every \<^verbatim>\<open>Date\<close> that \<^verbatim>\<open>PastAnalysis\<close> steps through is the first of a month at
  local midnight (\<^verbatim>\<open>new Date(year, month - 1, 1)\<close>, then
  \<^verbatim>\<open>setMonth(getMonth() + 1)\<close>).  Such a date is modelled by its month count
  \<open>12 * getFullYear + getMonth\<close>.  The constructor maps the years 0 to 99 to 1900 to 1999
  and carries a month index outside 0..11 into the year.
\<close>

definition fullYear :: "int \<Rightarrow> int" where
  "fullYear y = (if 0 \<le> y \<and> y \<le> 99 then 1900 + y else y)"

definition newDate :: "int \<Rightarrow> int \<Rightarrow> int" where
  "newDate y monthIndex = 12 * fullYear y + monthIndex"

definition getFullYear :: "int \<Rightarrow> int" where
  "getFullYear d = d div 12"

definition getMonth :: "int \<Rightarrow> int" where
  "getMonth d = d mod 12"

definition dateTime :: "Env \<Rightarrow> int \<Rightarrow> int" where
  "dateTime env d = getTime env (getFullYear d) (getMonth d) 1"

text \<open>
  \<^verbatim>\<open>const endDate = new Date()\<close>.  A first of a month at midnight is \<^verbatim>\<open><= endDate\<close>
  exactly when its month is not after the month of \<open>endDate\<close>, so the model compares month
  counts.
\<close>

definition endDate :: "Env \<Rightarrow> int" where
  "endDate env = 12 * nowYear env + nowMonth env"

text \<open>
  A clock to evaluate the model with: dates are read in UTC and today is 3 February 2026.
  \<open>civilDays y m d\<close> counts the days from 1 January 1970 to day \<open>d\<close> of month \<open>m\<close>
  (1-based) of year \<open>y\<close> in the proleptic Gregorian calendar; for instance
  \<open>utcTime 2020 0 1 = 1577836800000\<close>.
\<close>

definition civilDays :: "int \<Rightarrow> int \<Rightarrow> int \<Rightarrow> int" where
  "civilDays y m d =
     (let y' = (if m \<le> 2 then y - 1 else y);
          era = y' div 400;
          yoe = y' - era * 400;
          doy = (153 * ((m + 9) mod 12) + 2) div 5 + d - 1;
          doe = yoe * 365 + yoe div 4 - yoe div 100 + doy
      in era * 146097 + doe - 719468)"

definition utcTime :: "int \<Rightarrow> int \<Rightarrow> int \<Rightarrow> int" where
  "utcTime y m d = 86400000 * civilDays y (m + 1) d"

definition sampleEnv :: Env where
  "sampleEnv = \<lparr>getTime = utcTime, nowYear = 2026, nowMonth = 1,
     cutoffTime = (\<lambda>n. utcTime ((2026 * 12 + 1 - int n) div 12) ((2026 * 12 + 1 - int n) mod 12) 3)\<rparr>"

section \<open>Historical simulation (PastAnalysis)\<close>

datatype InvestmentType = Sip | StepUp | OneTime

text \<open>The values of the \<^verbatim>\<open>yearlyData\<close> map and the rows of \<^verbatim>\<open>yearlyBreakdown\<close>.\<close>

record YearData =
  invested :: real
  units :: real

record YearlyBreakdown =
  year :: int
  invested :: real
  cumulativeInvested :: real
  units :: real
  cumulativeUnits :: real
  yearValue :: real
  returns :: real
  returnsPercent :: real
  endYearNav :: real

text \<open>
  \<^verbatim>\<open>interface SipResult\<close> (types/index.ts) and the object that \<^verbatim>\<open>PastAnalysis\<close>
  returns, which adds \<^verbatim>\<open>yearlyBreakdown\<close>.  The fields \<^verbatim>\<open>startDate\<close>,
  \<^verbatim>\<open>buyNav\<close> and \<^verbatim>\<open>currentNav\<close>, copies of values the display prints, are left out.
\<close>

record SipResult =
  totalInvested :: real
  currentValue :: real
  totalUnits :: real
  returns :: real
  returnsPercentage :: real
  isProfit :: bool

record PastResult = SipResult +
  yearlyBreakdown :: "YearlyBreakdown list"

text \<open>The variables of the month loop.  \<open>yearlyData\<close> is the \<^verbatim>\<open>Map\<close>, in insertion order.\<close>

record SipState =
  totalUnits :: real
  totalInvested :: real
  currentDate :: int
  currentAmount :: real
  yearCounter :: int
  yearlyData :: "(int \<times> YearData) list"

text \<open>\<^verbatim>\<open>parseFloat(navData[0]?.nav || '0')\<close> (SipCalculator.tsx, line 152)\<close>

definition currentNav :: "NavData list \<Rightarrow> real" where
  "currentNav navData = (case navData of [] \<Rightarrow> 0 | first # _ \<Rightarrow> nav first)"

text \<open>\<^verbatim>\<open>parseFloat(latestNav?.nav || '0')\<close> with \<^verbatim>\<open>latestNav = data[0]\<close> (FundDetails.tsx, lines 50-51)\<close>

definition latestNavValue :: "NavData list \<Rightarrow> real" where
  "latestNavValue data = (case data of [] \<Rightarrow> 0 | latestNav # _ \<Rightarrow> nav latestNav)"

definition sipInit :: "int \<Rightarrow> real \<Rightarrow> SipState" where
  "sipInit startDate amount =
     \<lparr>SipState.totalUnits = 0, SipState.totalInvested = 0, currentDate = startDate,
      currentAmount = amount, yearCounter = 0, yearlyData = []\<rparr>"

text \<open>
  \<^verbatim>\<open>
  if (investmentType === 'stepup') {
      const yearsDiff = currentYear - startYear;
      if (yearsDiff > yearCounter) {
          currentAmount = amount * Math.pow(1 + stepUpPercent / 100, yearsDiff);
          yearCounter = yearsDiff;
      }
  }
  \<close>
  The exponent is a positive integer whenever the assignment runs (\<open>yearCounter\<close> starts at 0
  and only grows), so \<^verbatim>\<open>Math.pow\<close> is the power with a natural exponent.
\<close>

definition applyStepUp :: "InvestmentType \<Rightarrow> real \<Rightarrow> real \<Rightarrow> int \<Rightarrow> SipState \<Rightarrow> SipState" where
  "applyStepUp investmentType amount stepUpPercent startYear st =
     (if investmentType = StepUp then
        (let yearsDiff = getFullYear (currentDate st) - startYear in
         if yearsDiff > yearCounter st
         then st\<lparr>currentAmount := amount * (1 + stepUpPercent / 100) ^ nat yearsDiff,
                 yearCounter := yearsDiff\<rparr>
         else st)
      else st)"

text \<open>
  \<^verbatim>\<open>
  if (!yearlyData.has(currentYear)) yearlyData.set(currentYear, { invested: 0, units: 0 });
  const yd = yearlyData.get(currentYear)!;
  yd.invested += currentAmount;
  yd.units += unitsBought;
  \<close>
\<close>

definition addYearly :: "int \<Rightarrow> real \<Rightarrow> real \<Rightarrow> (int \<times> YearData) list \<Rightarrow> (int \<times> YearData) list" where
  "addYearly currentYear amt unitsBought yd =
     (let yd' = (if map_of yd currentYear = None
                 then yd @ [(currentYear, \<lparr>YearData.invested = 0, YearData.units = 0\<rparr>)] else yd)
      in map (\<lambda>(yr, d). if yr = currentYear
                then (yr, d\<lparr>YearData.invested := YearData.invested d + amt,
                            YearData.units := YearData.units d + unitsBought\<rparr>)
                else (yr, d)) yd')"

text \<open>
  The purchase of one month: look the valuation up, buy, add to the totals and to the year.
  \<^verbatim>\<open>
  const navEntry = findNearestNav(navData, currentDate);
  if (navEntry) {
      const nav = parseFloat(navEntry.nav);
      const unitsBought = currentAmount / nav;
      totalUnits += unitsBought;
      totalInvested += currentAmount;
      ...
  }
  \<close>
  Division is the division of the reals; a valuation of zero, where JavaScript gives
  \<^verbatim>\<open>Infinity\<close>, is excluded by hypothesis wherever units are spoken of.
\<close>

definition invest :: "NavData list \<Rightarrow> Env \<Rightarrow> SipState \<Rightarrow> SipState" where
  "invest navData env st =
     (case findNearestNav navData (dateTime env (currentDate st)) of
        None \<Rightarrow> st
      | Some navEntry \<Rightarrow>
          (let unitsBought = currentAmount st / nav navEntry in
           st\<lparr>SipState.totalUnits := SipState.totalUnits st + unitsBought,
              SipState.totalInvested := SipState.totalInvested st + currentAmount st,
              yearlyData := addYearly (getFullYear (currentDate st)) (currentAmount st) unitsBought
                              (yearlyData st)\<rparr>))"

text \<open>One iteration of the \<^verbatim>\<open>while\<close> loop, ending with \<^verbatim>\<open>setMonth(getMonth() + 1)\<close>.\<close>

definition sipBody :: "NavData list \<Rightarrow> Env \<Rightarrow> InvestmentType \<Rightarrow> real \<Rightarrow> real \<Rightarrow> int \<Rightarrow> SipState \<Rightarrow> SipState" where
  "sipBody navData env investmentType amount stepUpPercent startYear st =
     (let st' = invest navData env (applyStepUp investmentType amount stepUpPercent startYear st)
      in st'\<lparr>currentDate := currentDate st' + 1\<rparr>)"

text \<open>\<^verbatim>\<open>while (currentDate <= endDate) { ... }\<close>\<close>

function sipLoop :: "NavData list \<Rightarrow> Env \<Rightarrow> InvestmentType \<Rightarrow> real \<Rightarrow> real \<Rightarrow> int \<Rightarrow> SipState \<Rightarrow> SipState" where
  "sipLoop navData env investmentType amount stepUpPercent startYear st =
     (if currentDate st \<le> endDate env
      then sipLoop navData env investmentType amount stepUpPercent startYear
             (sipBody navData env investmentType amount stepUpPercent startYear st)
      else st)"
  by pat_completeness auto
termination
  by (relation "measure (\<lambda>(navData, env, investmentType, amount, stepUpPercent, startYear, st).
        nat (endDate env + 1 - currentDate st))")
     (auto simp: sipBody_def invest_def applyStepUp_def Let_def split: option.splits)

declare sipLoop.simps [simp del]

text \<open>
  The contribution of the month \<open>n\<close> months after the start: what the iteration of the
  loop body for that month adds to \<open>totalInvested\<close>.  (The loop runs the body once per
  month, see \<open>sipLoop_funpow\<close> below; the start year it is given is
  \<^verbatim>\<open>startDate.getFullYear()\<close>.)
\<close>

definition contribution :: "NavData list \<Rightarrow> Env \<Rightarrow> InvestmentType \<Rightarrow> real \<Rightarrow> real \<Rightarrow> int \<Rightarrow> nat \<Rightarrow> real" where
  "contribution navData env investmentType amount stepUpPercent startDate n =
     SipState.totalInvested
       ((sipBody navData env investmentType amount stepUpPercent (getFullYear startDate) ^^ Suc n)
          (sipInit startDate amount))
     - SipState.totalInvested
         ((sipBody navData env investmentType amount stepUpPercent (getFullYear startDate) ^^ n)
            (sipInit startDate amount))"

text \<open>
  The valuation at the end of a year, computed the same way in both branches:
  \<^verbatim>\<open>
  let endYearNav = currentNav;
  if (yr < currentYear) {
      const navEntry = findNearestNav(navData, new Date(yr, 11, 31));
      if (navEntry) endYearNav = parseFloat(navEntry.nav);
  }
  \<close>
\<close>

definition yearEndNav :: "NavData list \<Rightarrow> Env \<Rightarrow> int \<Rightarrow> real" where
  "yearEndNav navData env yr =
     (if yr < nowYear env then
        (case findNearestNav navData (getTime env (fullYear yr) 11 31) of
           Some navEntry \<Rightarrow> nav navEntry
         | None \<Rightarrow> currentNav navData)
      else currentNav navData)"

text \<open>\<^verbatim>\<open>Array.from(yearlyData.keys()).sort((a, b) => a - b)\<close>\<close>

definition sortedYears :: "(int \<times> YearData) list \<Rightarrow> int list" where
  "sortedYears yd = sort (map fst yd)"

text \<open>
  The loop \<^verbatim>\<open>for (const yr of sortedYears)\<close> that pushes one row per year, carrying
  \<open>cumulativeInvested\<close> and \<open>cumulativeUnits\<close>.  \<^verbatim>\<open>yearlyData.get(yr)!\<close> is never
  \<^verbatim>\<open>undefined\<close>, since \<open>yr\<close> is a key of the map (lemma \<open>sortedYears_keys\<close> below); the
  model ends the loop in that case.
\<close>

fun buildBreakdown :: "NavData list \<Rightarrow> Env \<Rightarrow> (int \<times> YearData) list \<Rightarrow> int list \<Rightarrow> real \<Rightarrow> real \<Rightarrow> YearlyBreakdown list" where
  "buildBreakdown navData env yearly [] cumInvested cumUnits = []"
| "buildBreakdown navData env yearly (yr # rest) cumInvested cumUnits =
     (case map_of yearly yr of
        None \<Rightarrow> []
      | Some yd \<Rightarrow>
          (let cumInvested' = cumInvested + YearData.invested yd;
               cumUnits' = cumUnits + YearData.units yd;
               endNav = yearEndNav navData env yr;
               val = cumUnits' * endNav;
               yearReturns = val - cumInvested';
               yearReturnsPercent = (if cumInvested' > 0 then (yearReturns / cumInvested') * 100 else 0)
           in \<lparr>year = yr, YearlyBreakdown.invested = YearData.invested yd,
               cumulativeInvested = cumInvested', YearlyBreakdown.units = YearData.units yd, cumulativeUnits = cumUnits', yearValue = val,
               YearlyBreakdown.returns = yearReturns, returnsPercent = yearReturnsPercent,
               endYearNav = endNav\<rparr>
              # buildBreakdown navData env yearly rest cumInvested' cumUnits'))"

text \<open>The branch \<^verbatim>\<open>investmentType === 'sip' || investmentType === 'stepup'\<close>.\<close>

definition sipResult :: "NavData list \<Rightarrow> Env \<Rightarrow> InvestmentType \<Rightarrow> real \<Rightarrow> real \<Rightarrow> int \<Rightarrow> PastResult" where
  "sipResult navData env investmentType amount stepUpPercent startDate =
     (let st = sipLoop navData env investmentType amount stepUpPercent (getFullYear startDate)
                 (sipInit startDate amount);
          curValue = SipState.totalUnits st * currentNav navData;
          rets = curValue - SipState.totalInvested st;
          retsPercentage = (if SipState.totalInvested st > 0
                            then (rets / SipState.totalInvested st) * 100 else 0)
      in \<lparr>SipResult.totalInvested = SipState.totalInvested st, currentValue = curValue,
          SipResult.totalUnits = SipState.totalUnits st, SipResult.returns = rets,
          returnsPercentage = retsPercentage,
          isProfit = (rets \<ge> 0),
          yearlyBreakdown = buildBreakdown navData env (yearlyData st) (sortedYears (yearlyData st)) 0 0\<rparr>)"

text \<open>
  The branch for a one-time investment; \<^verbatim>\<open>if (!purchaseNav) return null\<close> is the
  \<open>None\<close> result.  The rows come from \<^verbatim>\<open>for (let yr = startYear; yr <= endYear; yr++)\<close>.
\<close>

definition oneTimeRow :: "NavData list \<Rightarrow> Env \<Rightarrow> real \<Rightarrow> real \<Rightarrow> int \<Rightarrow> int \<Rightarrow> YearlyBreakdown" where
  "oneTimeRow navData env amount unts startYear yr =
     (let endNav = yearEndNav navData env yr;
          val = unts * endNav;
          yearReturns = val - amount;
          yearReturnsPercent = (yearReturns / amount) * 100
      in \<lparr>year = yr, YearlyBreakdown.invested = (if yr = startYear then amount else 0),
          cumulativeInvested = amount, YearlyBreakdown.units = (if yr = startYear then unts else 0), cumulativeUnits = unts, yearValue = val,
          YearlyBreakdown.returns = yearReturns, returnsPercent = yearReturnsPercent,
          endYearNav = endNav\<rparr>)"

definition oneTimeResult :: "NavData list \<Rightarrow> Env \<Rightarrow> real \<Rightarrow> int \<Rightarrow> PastResult option" where
  "oneTimeResult navData env amount startDate =
     (case findNearestNav navData (dateTime env startDate) of
        None \<Rightarrow> None
      | Some purchaseNav \<Rightarrow>
          (let unts = amount / nav purchaseNav;
               curValue = unts * currentNav navData;
               rets = curValue - amount;
               retsPercentage = (rets / amount) * 100;
               startYear = getFullYear startDate
           in Some \<lparr>SipResult.totalInvested = amount, currentValue = curValue,
                    SipResult.totalUnits = unts, SipResult.returns = rets,
                    returnsPercentage = retsPercentage, isProfit = (rets \<ge> 0),
                    yearlyBreakdown = map (oneTimeRow navData env amount unts startYear)
                                          [startYear .. nowYear env]\<rparr>))"

text \<open>
  The \<^verbatim>\<open>result\<close> of \<^verbatim>\<open>PastAnalysis\<close>.  The guard
  \<^verbatim>\<open>if (!amount || !selectedFromDate || !navData.length) return null\<close> comes first;
  \<open>selectedFromDate\<close> is the empty string exactly when \<open>selectedYear\<close> is 0.  The year and
  the month are chosen from the years and months of the series, so they are natural numbers,
  and the trip through the string \<^verbatim>\<open>`${selectedYear}-${month}`\<close> gives them back.
\<close>

definition PastAnalysis_result ::
  "Env \<Rightarrow> NavData list \<Rightarrow> InvestmentType \<Rightarrow> real \<Rightarrow> real \<Rightarrow> nat \<Rightarrow> nat \<Rightarrow> PastResult option" where
  "PastAnalysis_result env navData investmentType amount stepUpPercent selectedYear selectedMonth =
     (if amount = 0 \<or> selectedYear = 0 \<or> navData = [] then None
      else
        (let startDate = newDate (int selectedYear) (int selectedMonth - 1) in
         if investmentType = Sip \<or> investmentType = StepUp
         then Some (sipResult navData env investmentType amount stepUpPercent startDate)
         else oneTimeResult navData env amount startDate))"

section \<open>Future projection (FutureProjection)\<close>

record ProjectionResult =
  totalInvested :: real
  futureValue :: real
  returns :: real
  returnsPercentage :: real
  isProfit :: bool

text \<open>
  The inner loop of the step-up branch, on the pair (\<open>totalInvested\<close>, \<open>futureValue\<close>):
  \<^verbatim>\<open>
  for (let month = 0; month < 12; month++) {
      const monthsToGrow = monthsRemaining - month;
      const monthValue = currentAmount * Math.pow(1 + monthlyRate, monthsToGrow);
      futureValue += monthValue;
      totalInvested += currentAmount;
  }
  \<close>
  \<open>monthsRemaining\<close> is at least 12 here, so the exponent is a positive integer.
\<close>

function stepUpMonths :: "real \<Rightarrow> real \<Rightarrow> nat \<Rightarrow> nat \<Rightarrow> real \<times> real \<Rightarrow> real \<times> real" where
  "stepUpMonths monthlyRate curAmount monthsRemaining month (totInvested, futValue) =
     (if month < 12 then
        (let monthsToGrow = monthsRemaining - month;
             monthValue = curAmount * (1 + monthlyRate) ^ monthsToGrow
         in stepUpMonths monthlyRate curAmount monthsRemaining (month + 1)
              (totInvested + curAmount, futValue + monthValue))
      else (totInvested, futValue))"
  by pat_completeness auto
termination
  by (relation "measure (\<lambda>(monthlyRate, curAmount, monthsRemaining, month, acc). 12 - month)") auto

declare stepUpMonths.simps [simp del]

text \<open>
  The outer loop, on the triple (\<open>totalInvested\<close>, \<open>futureValue\<close>, \<open>currentAmount\<close>):
  \<^verbatim>\<open>
  for (let year = 0; year < years; year++) {
      const monthsRemaining = (years - year) * 12;
      for (...) { ... }
      currentAmount = currentAmount * (1 + stepUpPercent / 100);
  }
  \<close>
\<close>

function stepUpYears :: "real \<Rightarrow> real \<Rightarrow> nat \<Rightarrow> nat \<Rightarrow> real \<times> real \<times> real \<Rightarrow> real \<times> real \<times> real" where
  "stepUpYears monthlyRate stepUpPercent years yr (totInvested, futValue, curAmount) =
     (if yr < years then
        (let monthsRemaining = (years - yr) * 12;
             (totInvested', futValue') =
                stepUpMonths monthlyRate curAmount monthsRemaining 0 (totInvested, futValue)
         in stepUpYears monthlyRate stepUpPercent years (yr + 1)
              (totInvested', futValue', curAmount * (1 + stepUpPercent / 100)))
      else (totInvested, futValue, curAmount))"
  by pat_completeness auto
termination
  by (relation "measure (\<lambda>(monthlyRate, stepUpPercent, years, yr, acc). years - yr)") auto

declare stepUpYears.simps [simp del]

text \<open>
  \<^verbatim>\<open>returns\<close>, \<^verbatim>\<open>returnsPercentage\<close> and \<^verbatim>\<open>isProfit\<close>, computed alike in the three
  branches from the invested total and the future value.
\<close>

definition projection :: "real \<Rightarrow> real \<Rightarrow> ProjectionResult" where
  "projection totInvested futValue =
     (let rets = futValue - totInvested;
          retsPercentage = (rets / totInvested) * 100
      in \<lparr>ProjectionResult.totalInvested = totInvested, futureValue = futValue,
          ProjectionResult.returns = rets, ProjectionResult.returnsPercentage = retsPercentage,
          ProjectionResult.isProfit = (rets \<ge> 0)\<rparr>)"

text \<open>
  The \<^verbatim>\<open>result\<close> of \<^verbatim>\<open>FutureProjection\<close>, after the guard
  \<^verbatim>\<open>if (!amount || !years || !expectedReturn) return null\<close>.  The number of years is a
  natural number (the input field counts whole years from 1 to 40).
\<close>

definition FutureProjection_result ::
  "InvestmentType \<Rightarrow> real \<Rightarrow> nat \<Rightarrow> real \<Rightarrow> real \<Rightarrow> ProjectionResult option" where
  "FutureProjection_result investmentType amount years expectedReturn stepUpPercent =
     (if amount = 0 \<or> years = 0 \<or> expectedReturn = 0 then None
      else
        (let monthlyRate = expectedReturn / 100 / 12;
             months = years * 12
         in if investmentType = Sip then
              (let futValue = amount * (((1 + monthlyRate) ^ months - 1) / monthlyRate) * (1 + monthlyRate);
                   totInvested = amount * real months
               in Some (projection totInvested futValue))
            else if investmentType = StepUp then
              (let (totInvested, futValue, curAmount) =
                     stepUpYears monthlyRate stepUpPercent years 0 (0, 0, amount)
               in Some (projection totInvested futValue))
            else
              (let futValue = amount * (1 + monthlyRate) ^ months
               in Some (projection amount futValue))))"

section \<open>Trailing returns (NavChart)\<close>

datatype TimePeriod = P_1M | P_3M | P_6M | P_1Y | P_3Y | P_5Y | P_ALL

text \<open>The \<^verbatim>\<open>months\<close> column of \<^verbatim>\<open>TIME_PERIODS\<close>; \<open>None\<close> is \<^verbatim>\<open>null\<close>.\<close>

fun months :: "TimePeriod \<Rightarrow> nat option" where
  "months P_1M = Some 1"
| "months P_3M = Some 3"
| "months P_6M = Some 6"
| "months P_1Y = Some 12"
| "months P_3Y = Some 36"
| "months P_5Y = Some 60"
| "months P_ALL = None"

record PeriodReturn =
  change :: real
  isPositive :: bool

text \<open>
  \<^verbatim>\<open>periodReturns\<close>, as a function of the period key.  For a finite window the
  component scans \<open>data\<close> with the loop of \<^verbatim>\<open>findNearestNav\<close>, written out in place.
  \<^verbatim>\<open>
  if (!data.length) return results;            // every entry null
  const latestNav = parseFloat(data[0].nav);
  ...
  if (period.months === null) { const oldest = data[data.length - 1]; startNav = parseFloat(oldest.nav); }
  else { ... closest ... startNav = parseFloat(closest.nav); }
  if (startNav !== null && startNav > 0) {
      const change = ((latestNav - startNav) / startNav) * 100;
      results[period.key] = { change, isPositive: change >= 0 };
  }
  \<close>
\<close>

definition periodReturns :: "Env \<Rightarrow> NavData list \<Rightarrow> TimePeriod \<Rightarrow> PeriodReturn option" where
  "periodReturns env data period =
     (case data of
        [] \<Rightarrow> None
      | first # _ \<Rightarrow>
          (let latestNav = nav first;
               startNav = (case months period of
                             None \<Rightarrow> Some (nav (last data))
                           | Some n \<Rightarrow> map_option nav (findNearestNav data (cutoffTime env n)))
           in case startNav of
                None \<Rightarrow> None
              | Some start \<Rightarrow>
                  if start > 0
                  then (let chg = ((latestNav - start) / start) * 100
                        in Some \<lparr>change = chg, isPositive = (chg \<ge> 0)\<rparr>)
                  else None))"

section \<open>Number arithmetic\<close>

text \<open>
  The definitions above compute with exact numbers.  A JavaScript \<^verbatim>\<open>Number\<close> is a
  double: every \<^verbatim>\<open>+\<close>, \<^verbatim>\<open>-\<close>, \<^verbatim>\<open>*\<close> and \<^verbatim>\<open>/\<close> rounds its exact result, and
  \<^verbatim>\<open>Math.pow\<close> is a library function.  Where a claim compares two numbers that the code
  reaches by different sequences of operations, the rounding decides it, so the
  computations of such claims are modelled once more below with the arithmetic as a
  parameter: \<open>rnd\<close> is applied to the exact result of each operation and \<open>pow\<close> stands for
  \<^verbatim>\<open>Math.pow\<close>.  Overflow, \<^verbatim>\<open>NaN\<close> and \<^verbatim>\<open>Infinity\<close> stay outside the model.
\<close>

record Arith =
  rnd :: "real \<Rightarrow> real"
  pow :: "real \<Rightarrow> real \<Rightarrow> real"

definition addN :: "Arith \<Rightarrow> real \<Rightarrow> real \<Rightarrow> real" where
  "addN A x y = rnd A (x + y)"

definition subN :: "Arith \<Rightarrow> real \<Rightarrow> real \<Rightarrow> real" where
  "subN A x y = rnd A (x - y)"

definition mulN :: "Arith \<Rightarrow> real \<Rightarrow> real \<Rightarrow> real" where
  "mulN A x y = rnd A (x * y)"

definition divN :: "Arith \<Rightarrow> real \<Rightarrow> real \<Rightarrow> real" where
  "divN A x y = rnd A (x / y)"

text \<open>
  Exact arithmetic: nothing is rounded, and the power is the integer power for a whole
  exponent and the real power otherwise.
\<close>

definition exactPow :: "real \<Rightarrow> real \<Rightarrow> real" where
  "exactPow b e = (if e = of_int \<lfloor>e\<rfloor> then b powi \<lfloor>e\<rfloor> else b powr e)"

definition exactArith :: Arith where
  "exactArith = \<lparr>rnd = (\<lambda>x. x), pow = exactPow\<rparr>"

text \<open>
  Double arithmetic: \<open>double x\<close> is the double nearest to \<open>x\<close>, ties going to the even
  significand (IEEE 754 binary64, 53 significant bits; the exponent range is not bounded).
  \<open>binExp x\<close> is the binary exponent of a positive \<open>x\<close>, the \<open>e\<close> with
  \<open>2 ^ e \<le> x < 2 ^ (e + 1)\<close>, and \<open>ilog2 n\<close> that of a positive integer.  The power of
  \<open>doubleArith\<close> is the correctly rounded one; it is evaluated below at the exponent 1 only,
  where \<^verbatim>\<open>Math.pow\<close> returns its base.
\<close>

definition roundEven :: "real \<Rightarrow> int" where
  "roundEven y =
     (let f = \<lfloor>y\<rfloor>; d = y - of_int f
      in if d < 1 / 2 then f else if 1 / 2 < d then f + 1 else if even f then f else f + 1)"

function ilog2 :: "int \<Rightarrow> int" where
  "ilog2 n = (if n \<le> 1 then 0 else 1 + ilog2 (n div 2))"
  by pat_completeness auto
termination
  by (relation "measure nat") auto

declare ilog2.simps [simp del]

definition binExp :: "real \<Rightarrow> int" where
  "binExp x =
     (if 1 \<le> x then ilog2 \<lfloor>x\<rfloor>
      else - (ilog2 (\<lceil>1 / x\<rceil> - 1) + 1))"

definition double :: "real \<Rightarrow> real" where
  "double x =
     (if x = 0 then 0
      else (let e = binExp \<bar>x\<bar> - 52;
                m = roundEven (\<bar>x\<bar> / 2 powi e)
            in sgn x * (of_int m * 2 powi e)))"

definition doubleArith :: Arith where
  "doubleArith = \<lparr>rnd = double, pow = (\<lambda>b e. double (exactPow b e))\<rparr>"

text \<open>
  What the proofs about rounded results use of an arithmetic: rounding is monotone, leaves
  a rounded number as it is, leaves 0 and -1 as they are, and a power of a non-negative
  base is not negative.
\<close>

definition roundingArith :: "Arith \<Rightarrow> bool" where
  "roundingArith A =
     ((\<forall>x y. x \<le> y \<longrightarrow> rnd A x \<le> rnd A y)
      \<and> (\<forall>x. rnd A (rnd A x) = rnd A x)
      \<and> rnd A 0 = 0 \<and> rnd A (- 1) = - 1
      \<and> (\<forall>b e. 0 \<le> b \<longrightarrow> 0 \<le> pow A b e))"

section \<open>Historical simulation in a given arithmetic\<close>

text \<open>
  The schedule and lump-sum computations of \<^verbatim>\<open>PastAnalysis\<close> once more, operation by
  operation as in the source, in the arithmetic \<open>A\<close>.  In exact arithmetic they are the
  definitions of the section on the historical simulation.
\<close>

definition applyStepUp_fl :: "Arith \<Rightarrow> InvestmentType \<Rightarrow> real \<Rightarrow> real \<Rightarrow> int \<Rightarrow> SipState \<Rightarrow> SipState" where
  "applyStepUp_fl A investmentType amount stepUpPercent startYear st =
     (if investmentType = StepUp then
        (let yearsDiff = getFullYear (currentDate st) - startYear in
         if yearsDiff > yearCounter st
         then st\<lparr>currentAmount :=
                   mulN A amount (pow A (addN A 1 (divN A stepUpPercent 100)) (of_int yearsDiff)),
                 yearCounter := yearsDiff\<rparr>
         else st)
      else st)"

definition addYearly_fl :: "Arith \<Rightarrow> int \<Rightarrow> real \<Rightarrow> real \<Rightarrow> (int \<times> YearData) list \<Rightarrow> (int \<times> YearData) list" where
  "addYearly_fl A currentYear amt unitsBought yd =
     (let yd' = (if map_of yd currentYear = None
                 then yd @ [(currentYear, \<lparr>YearData.invested = 0, YearData.units = 0\<rparr>)] else yd)
      in map (\<lambda>(yr, d). if yr = currentYear
                then (yr, d\<lparr>YearData.invested := addN A (YearData.invested d) amt,
                            YearData.units := addN A (YearData.units d) unitsBought\<rparr>)
                else (yr, d)) yd')"

definition invest_fl :: "Arith \<Rightarrow> NavData list \<Rightarrow> Env \<Rightarrow> SipState \<Rightarrow> SipState" where
  "invest_fl A navData env st =
     (case findNearestNav navData (dateTime env (currentDate st)) of
        None \<Rightarrow> st
      | Some navEntry \<Rightarrow>
          (let unitsBought = divN A (currentAmount st) (nav navEntry) in
           st\<lparr>SipState.totalUnits := addN A (SipState.totalUnits st) unitsBought,
              SipState.totalInvested := addN A (SipState.totalInvested st) (currentAmount st),
              yearlyData := addYearly_fl A (getFullYear (currentDate st)) (currentAmount st)
                              unitsBought (yearlyData st)\<rparr>))"

definition sipBody_fl :: "Arith \<Rightarrow> NavData list \<Rightarrow> Env \<Rightarrow> InvestmentType \<Rightarrow> real \<Rightarrow> real \<Rightarrow> int \<Rightarrow> SipState \<Rightarrow> SipState" where
  "sipBody_fl A navData env investmentType amount stepUpPercent startYear st =
     (let st' = invest_fl A navData env
                  (applyStepUp_fl A investmentType amount stepUpPercent startYear st)
      in st'\<lparr>currentDate := currentDate st' + 1\<rparr>)"

function sipLoop_fl :: "Arith \<Rightarrow> NavData list \<Rightarrow> Env \<Rightarrow> InvestmentType \<Rightarrow> real \<Rightarrow> real \<Rightarrow> int \<Rightarrow> SipState \<Rightarrow> SipState" where
  "sipLoop_fl A navData env investmentType amount stepUpPercent startYear st =
     (if currentDate st \<le> endDate env
      then sipLoop_fl A navData env investmentType amount stepUpPercent startYear
             (sipBody_fl A navData env investmentType amount stepUpPercent startYear st)
      else st)"
  by pat_completeness auto
termination
  by (relation "measure (\<lambda>(A, navData, env, investmentType, amount, stepUpPercent, startYear, st).
        nat (endDate env + 1 - currentDate st))")
     (auto simp: sipBody_fl_def invest_fl_def applyStepUp_fl_def Let_def split: option.splits)

declare sipLoop_fl.simps [simp del]

fun buildBreakdown_fl :: "Arith \<Rightarrow> NavData list \<Rightarrow> Env \<Rightarrow> (int \<times> YearData) list \<Rightarrow> int list \<Rightarrow> real \<Rightarrow> real \<Rightarrow> YearlyBreakdown list" where
  "buildBreakdown_fl A navData env yearly [] cumInvested cumUnits = []"
| "buildBreakdown_fl A navData env yearly (yr # rest) cumInvested cumUnits =
     (case map_of yearly yr of
        None \<Rightarrow> []
      | Some yd \<Rightarrow>
          (let cumInvested' = addN A cumInvested (YearData.invested yd);
               cumUnits' = addN A cumUnits (YearData.units yd);
               endNav = yearEndNav navData env yr;
               val = mulN A cumUnits' endNav;
               yearReturns = subN A val cumInvested';
               yearReturnsPercent = (if cumInvested' > 0
                                     then mulN A (divN A yearReturns cumInvested') 100 else 0)
           in \<lparr>year = yr, YearlyBreakdown.invested = YearData.invested yd,
               cumulativeInvested = cumInvested', YearlyBreakdown.units = YearData.units yd,
               cumulativeUnits = cumUnits', yearValue = val,
               YearlyBreakdown.returns = yearReturns, returnsPercent = yearReturnsPercent,
               endYearNav = endNav\<rparr>
              # buildBreakdown_fl A navData env yearly rest cumInvested' cumUnits'))"

definition sipResult_fl :: "Arith \<Rightarrow> NavData list \<Rightarrow> Env \<Rightarrow> InvestmentType \<Rightarrow> real \<Rightarrow> real \<Rightarrow> int \<Rightarrow> PastResult" where
  "sipResult_fl A navData env investmentType amount stepUpPercent startDate =
     (let st = sipLoop_fl A navData env investmentType amount stepUpPercent (getFullYear startDate)
                 (sipInit startDate amount);
          curValue = mulN A (SipState.totalUnits st) (currentNav navData);
          rets = subN A curValue (SipState.totalInvested st);
          retsPercentage = (if SipState.totalInvested st > 0
                            then mulN A (divN A rets (SipState.totalInvested st)) 100 else 0)
      in \<lparr>SipResult.totalInvested = SipState.totalInvested st, currentValue = curValue,
          SipResult.totalUnits = SipState.totalUnits st, SipResult.returns = rets,
          returnsPercentage = retsPercentage,
          isProfit = (rets \<ge> 0),
          yearlyBreakdown = buildBreakdown_fl A navData env (yearlyData st)
                              (sortedYears (yearlyData st)) 0 0\<rparr>)"

definition oneTimeRow_fl :: "Arith \<Rightarrow> NavData list \<Rightarrow> Env \<Rightarrow> real \<Rightarrow> real \<Rightarrow> int \<Rightarrow> int \<Rightarrow> YearlyBreakdown" where
  "oneTimeRow_fl A navData env amount unts startYear yr =
     (let endNav = yearEndNav navData env yr;
          val = mulN A unts endNav;
          yearReturns = subN A val amount;
          yearReturnsPercent = mulN A (divN A yearReturns amount) 100
      in \<lparr>year = yr, YearlyBreakdown.invested = (if yr = startYear then amount else 0),
          cumulativeInvested = amount, YearlyBreakdown.units = (if yr = startYear then unts else 0),
          cumulativeUnits = unts, yearValue = val,
          YearlyBreakdown.returns = yearReturns, returnsPercent = yearReturnsPercent,
          endYearNav = endNav\<rparr>)"

definition oneTimeResult_fl :: "Arith \<Rightarrow> NavData list \<Rightarrow> Env \<Rightarrow> real \<Rightarrow> int \<Rightarrow> PastResult option" where
  "oneTimeResult_fl A navData env amount startDate =
     (case findNearestNav navData (dateTime env startDate) of
        None \<Rightarrow> None
      | Some purchaseNav \<Rightarrow>
          (let unts = divN A amount (nav purchaseNav);
               curValue = mulN A unts (currentNav navData);
               rets = subN A curValue amount;
               retsPercentage = mulN A (divN A rets amount) 100;
               startYear = getFullYear startDate
           in Some \<lparr>SipResult.totalInvested = amount, currentValue = curValue,
                    SipResult.totalUnits = unts, SipResult.returns = rets,
                    returnsPercentage = retsPercentage, isProfit = (rets \<ge> 0),
                    yearlyBreakdown = map (oneTimeRow_fl A navData env amount unts startYear)
                                          [startYear .. nowYear env]\<rparr>))"

definition PastAnalysis_result_fl ::
  "Arith \<Rightarrow> Env \<Rightarrow> NavData list \<Rightarrow> InvestmentType \<Rightarrow> real \<Rightarrow> real \<Rightarrow> nat \<Rightarrow> nat \<Rightarrow> PastResult option" where
  "PastAnalysis_result_fl A env navData investmentType amount stepUpPercent selectedYear selectedMonth =
     (if amount = 0 \<or> selectedYear = 0 \<or> navData = [] then None
      else
        (let startDate = newDate (int selectedYear) (int selectedMonth - 1) in
         if investmentType = Sip \<or> investmentType = StepUp
         then Some (sipResult_fl A navData env investmentType amount stepUpPercent startDate)
         else oneTimeResult_fl A navData env amount startDate))"

section \<open>Future projection in a given arithmetic, for any number of years\<close>

text \<open>
  \<^verbatim>\<open>FutureProjection\<close> once more, in the arithmetic \<open>A\<close> and with \<open>years\<close> any number, as
  the input field delivers it (\<^verbatim>\<open>setYears(Number(e.target.value))\<close>).  The loop counters
  \<open>year\<close> and \<open>month\<close> are whole; the loop over the years runs while
  \<^verbatim>\<open>year < years\<close>, that is once for each whole number below \<open>years\<close>.
\<close>

function stepUpMonths_fl :: "Arith \<Rightarrow> real \<Rightarrow> real \<Rightarrow> real \<Rightarrow> nat \<Rightarrow> real \<times> real \<Rightarrow> real \<times> real" where
  "stepUpMonths_fl A monthlyRate curAmount monthsRemaining month (totInvested, futValue) =
     (if month < 12 then
        (let monthsToGrow = subN A monthsRemaining (real month);
             monthValue = mulN A curAmount (pow A (addN A 1 monthlyRate) monthsToGrow)
         in stepUpMonths_fl A monthlyRate curAmount monthsRemaining (month + 1)
              (addN A totInvested curAmount, addN A futValue monthValue))
      else (totInvested, futValue))"
  by pat_completeness auto
termination
  by (relation "measure (\<lambda>(A, monthlyRate, curAmount, monthsRemaining, month, acc). 12 - month)") auto

declare stepUpMonths_fl.simps [simp del]

function stepUpYears_fl :: "Arith \<Rightarrow> real \<Rightarrow> real \<Rightarrow> real \<Rightarrow> nat \<Rightarrow> real \<times> real \<times> real \<Rightarrow> real \<times> real \<times> real" where
  "stepUpYears_fl A monthlyRate stepUpPercent years yr (totInvested, futValue, curAmount) =
     (if real yr < years then
        (let monthsRemaining = mulN A (subN A years (real yr)) 12;
             (totInvested', futValue') =
                stepUpMonths_fl A monthlyRate curAmount monthsRemaining 0 (totInvested, futValue)
         in stepUpYears_fl A monthlyRate stepUpPercent years (yr + 1)
              (totInvested', futValue', mulN A curAmount (addN A 1 (divN A stepUpPercent 100))))
      else (totInvested, futValue, curAmount))"
  by pat_completeness auto
termination
  by (relation "measure (\<lambda>(A, monthlyRate, stepUpPercent, years, yr, acc). nat \<lceil>years\<rceil> - yr)")
     (auto simp: zless_nat_eq_int_zless less_ceiling_iff intro!: diff_less_mono2)

declare stepUpYears_fl.simps [simp del]

definition projection_fl :: "Arith \<Rightarrow> real \<Rightarrow> real \<Rightarrow> ProjectionResult" where
  "projection_fl A totInvested futValue =
     (let rets = subN A futValue totInvested;
          retsPercentage = mulN A (divN A rets totInvested) 100
      in \<lparr>ProjectionResult.totalInvested = totInvested, futureValue = futValue,
          ProjectionResult.returns = rets, ProjectionResult.returnsPercentage = retsPercentage,
          ProjectionResult.isProfit = (rets \<ge> 0)\<rparr>)"

definition FutureProjection_result_fl ::
  "Arith \<Rightarrow> InvestmentType \<Rightarrow> real \<Rightarrow> real \<Rightarrow> real \<Rightarrow> real \<Rightarrow> ProjectionResult option" where
  "FutureProjection_result_fl A investmentType amount years expectedReturn stepUpPercent =
     (if amount = 0 \<or> years = 0 \<or> expectedReturn = 0 then None
      else
        (let monthlyRate = divN A (divN A expectedReturn 100) 12;
             months = mulN A years 12
         in if investmentType = Sip then
              (let futValue = mulN A
                     (mulN A amount
                        (divN A (subN A (pow A (addN A 1 monthlyRate) months) 1) monthlyRate))
                     (addN A 1 monthlyRate);
                   totInvested = mulN A amount months
               in Some (projection_fl A totInvested futValue))
            else if investmentType = StepUp then
              (let (totInvested, futValue, curAmount) =
                     stepUpYears_fl A monthlyRate stepUpPercent years 0 (0, 0, amount)
               in Some (projection_fl A totInvested futValue))
            else
              (let futValue = mulN A amount (pow A (addN A 1 monthlyRate) months)
               in Some (projection_fl A amount futValue))))"

section \<open>Properties of the nearest-date lookup\<close>

lemma scanNearest_unchanged:
  "(\<forall>e \<in> set xs. \<not> below (timeDiff e t) minDiff) \<Longrightarrow> scanNearest xs t nearest minDiff = nearest"
  by (induction xs) simp_all

text \<open>
  What the exhaustive scan returns: either no entry beat the incoming \<open>minDiff\<close> and the
  incoming \<open>nearest\<close> is returned, or the list splits around the returned entry, every entry
  before it being strictly farther from the target and every entry after it at least as far.
\<close>

lemma scanNearest_split:
  "(scanNearest xs t nearest minDiff = nearest \<and> (\<forall>e \<in> set xs. \<not> below (timeDiff e t) minDiff))
   \<or> (\<exists>ys r zs. scanNearest xs t nearest minDiff = Some r \<and> xs = ys @ r # zs
         \<and> below (timeDiff r t) minDiff
         \<and> (\<forall>e \<in> set ys. timeDiff r t < timeDiff e t)
         \<and> (\<forall>e \<in> set zs. timeDiff r t \<le> timeDiff e t))"
proof (induction xs arbitrary: nearest minDiff)
  case Nil
  then show ?case by simp
next
  case (Cons x xs)
  show ?case
  proof (cases "below (timeDiff x t) minDiff")
    case True
    from Cons.IH [of "Some x" "Some (timeDiff x t)"]
    consider (keep) "scanNearest xs t (Some x) (Some (timeDiff x t)) = Some x"
        "\<forall>e \<in> set xs. \<not> below (timeDiff e t) (Some (timeDiff x t))"
      | (later) ys r zs where "scanNearest xs t (Some x) (Some (timeDiff x t)) = Some r"
        "xs = ys @ r # zs" "below (timeDiff r t) (Some (timeDiff x t))"
        "\<forall>e \<in> set ys. timeDiff r t < timeDiff e t" "\<forall>e \<in> set zs. timeDiff r t \<le> timeDiff e t"
      by blast
    then show ?thesis
    proof cases
      case keep
      have "scanNearest (x # xs) t nearest minDiff = Some x \<and> x # xs = [] @ x # xs
          \<and> below (timeDiff x t) minDiff \<and> (\<forall>e \<in> set []. timeDiff x t < timeDiff e t)
          \<and> (\<forall>e \<in> set xs. timeDiff x t \<le> timeDiff e t)"
        using True keep by (auto simp: not_less)
      then show ?thesis by blast
    next
      case later
      have lt: "timeDiff r t < timeDiff x t" using later(3) by simp
      have b: "below (timeDiff r t) minDiff"
        using True lt by (cases minDiff) auto
      have "scanNearest (x # xs) t nearest minDiff = Some r \<and> x # xs = (x # ys) @ r # zs
          \<and> below (timeDiff r t) minDiff \<and> (\<forall>e \<in> set (x # ys). timeDiff r t < timeDiff e t)
          \<and> (\<forall>e \<in> set zs. timeDiff r t \<le> timeDiff e t)"
        using True later lt b by simp
      then show ?thesis by blast
    qed
  next
    case False
    from Cons.IH [of nearest minDiff]
    consider (keep) "scanNearest xs t nearest minDiff = nearest"
        "\<forall>e \<in> set xs. \<not> below (timeDiff e t) minDiff"
      | (later) ys r zs where "scanNearest xs t nearest minDiff = Some r"
        "xs = ys @ r # zs" "below (timeDiff r t) minDiff"
        "\<forall>e \<in> set ys. timeDiff r t < timeDiff e t" "\<forall>e \<in> set zs. timeDiff r t \<le> timeDiff e t"
      by blast
    then show ?thesis
    proof cases
      case keep
      then show ?thesis using False by simp
    next
      case later
      have lt: "timeDiff r t < timeDiff x t"
        using False later(3) by (cases minDiff) auto
      have "scanNearest (x # xs) t nearest minDiff = Some r \<and> x # xs = (x # ys) @ r # zs
          \<and> below (timeDiff r t) minDiff \<and> (\<forall>e \<in> set (x # ys). timeDiff r t < timeDiff e t)
          \<and> (\<forall>e \<in> set zs. timeDiff r t \<le> timeDiff e t)"
        using False later lt by simp
      then show ?thesis by blast
    qed
  qed
qed

text \<open>
  On an ascending sequence, leaving the scan at the first entry dated after the target
  loses nothing: every later entry is at least as far from the target as the entry at
  which the scan stops, and the comparison is strict.
\<close>

lemma scanNearestBreak_eq:
  "ascending xs \<Longrightarrow> scanNearestBreak xs t nearest minDiff = scanNearest xs t nearest minDiff"
proof (induction xs arbitrary: nearest minDiff)
  case Nil
  then show ?case by simp
next
  case (Cons x xs)
  have asc: "ascending xs" and later: "\<forall>e \<in> set xs. date x \<le> date e"
    using Cons.prems by (auto simp: ascending_def)
  let ?d = "timeDiff x t"
  let ?n = "if below ?d minDiff then Some x else nearest"
  let ?m = "if below ?d minDiff then Some ?d else minDiff"
  have step: "scanNearest (x # xs) t nearest minDiff = scanNearest xs t ?n ?m"
    by simp
  have stepB: "scanNearestBreak (x # xs) t nearest minDiff =
      (if date x > t \<and> ?n \<noteq> None then ?n else scanNearestBreak xs t ?n ?m)"
    by (simp only: scanNearestBreak.simps Let_def)
  show ?case
  proof (cases "date x > t \<and> ?n \<noteq> None")
    case True
    have far: "\<forall>e \<in> set xs. ?d \<le> timeDiff e t"
      using True later by (auto simp: timeDiff_def)
    have "\<forall>e \<in> set xs. \<not> below (timeDiff e t) ?m"
    proof
      fix e assume e: "e \<in> set xs"
      show "\<not> below (timeDiff e t) ?m"
      proof (cases "below ?d minDiff")
        case True
        then show ?thesis using far e by (auto simp: not_less)
      next
        case False
        then obtain m where m: "minDiff = Some m" "m \<le> ?d"
          by (cases minDiff) (auto simp: not_less)
        then show ?thesis using False far e by (auto simp: not_less)
      qed
    qed
    then have "scanNearest xs t ?n ?m = ?n"
      by (rule scanNearest_unchanged)
    moreover have "scanNearestBreak (x # xs) t nearest minDiff = ?n"
      by (subst stepB, rule if_P, rule True)
    ultimately show ?thesis by (simp only: step)
  next
    case False
    have "scanNearestBreak (x # xs) t nearest minDiff = scanNearestBreak xs t ?n ?m"
      by (subst stepB, rule if_not_P, rule False)
    also have "\<dots> = scanNearest xs t ?n ?m"
      by (rule Cons.IH [OF asc])
    finally show ?thesis by (simp only: step)
  qed
qed

text \<open>
  C10.  For every record sequence sorted ascending by date and every target date, the
  early-exit lookup (services/mfApi.ts) returns exactly the record that the exhaustive
  minimum-distance scan (components/SipCalculator.tsx) returns on the same sequence.
\<close>

theorem early_exit_equals_exhaustive_scan:
  "ascending sortedNav \<Longrightarrow> findNearestNav_mfApi sortedNav targetTime = findNearestNav sortedNav targetTime"
  unfolding findNearestNav_mfApi_def findNearestNav_def
  by (rule scanNearestBreak_eq)

theorem early_exit_equals_exhaustive_scan_witness:
  "ascending [\<lparr>date = 10, nav = 3\<rparr>, \<lparr>date = 20, nav = 4\<rparr>, \<lparr>date = 40, nav = 5\<rparr>, \<lparr>date = 50, nav = 1\<rparr>]
   \<and> findNearestNav_mfApi [\<lparr>date = 10, nav = 3\<rparr>, \<lparr>date = 20, nav = 4\<rparr>, \<lparr>date = 40, nav = 5\<rparr>, \<lparr>date = 50, nav = 1\<rparr>] 30
     = findNearestNav [\<lparr>date = 10, nav = 3\<rparr>, \<lparr>date = 20, nav = 4\<rparr>, \<lparr>date = 40, nav = 5\<rparr>, \<lparr>date = 50, nav = 1\<rparr>] 30
   \<and> findNearestNav [\<lparr>date = 10, nav = 3\<rparr>, \<lparr>date = 20, nav = 4\<rparr>, \<lparr>date = 40, nav = 5\<rparr>, \<lparr>date = 50, nav = 1\<rparr>] 30
     = Some \<lparr>date = 20, nav = 4\<rparr>"
proof -
  have a: "ascending [\<lparr>date = 10, nav = 3\<rparr>, \<lparr>date = 20, nav = 4\<rparr>, \<lparr>date = 40, nav = 5\<rparr>, \<lparr>date = 50, nav = 1\<rparr>]"
    by (simp add: ascending_def)
  show ?thesis
    using a early_exit_equals_exhaustive_scan [OF a, of 30]
    by (simp add: findNearestNav_def timeDiff_def)
qed

text \<open>
  C1, as stated, fails on the lookup of components/SipCalculator.tsx: the scan keeps the
  first entry of minimum distance in the order of the sequence it is given, and
  \<^verbatim>\<open>PastAnalysis\<close> passes the raw records.  With the later date first, of two records
  at equal distance the later one is returned.
\<close>

theorem nearest_tie_counterexample:
  "findNearestNav [\<lparr>date = 20, nav = 2\<rparr>, \<lparr>date = 0, nav = 1\<rparr>] 10 = Some \<lparr>date = 20, nav = 2\<rparr>
   \<and> timeDiff \<lparr>date = 0, nav = 1\<rparr> 10 = timeDiff \<lparr>date = 20, nav = 2\<rparr> 10
   \<and> date \<lparr>date = 0, nav = 1\<rparr> < date \<lparr>date = 20, nav = 2\<rparr>"
  by (simp add: findNearestNav_def timeDiff_def)

lemma ascending_append_Cons:
  "ascending (ys @ r # zs) \<Longrightarrow> \<forall>e \<in> set zs. date r \<le> date e"
  by (simp add: ascending_def sorted_wrt_append)

text \<open>
  C1, amended.  For every non-empty sequence and every target, the lookup returns a record
  of the sequence whose distance to the target is at most that of every record; among the
  records at that distance it returns the one that comes first in the sequence.  When the
  sequence is ascending by date this is the one with the earliest date, and the early-exit
  lookup of services/mfApi.ts returns the same record.
\<close>

theorem nearest_minimal_first_wins:
  "navData \<noteq> [] \<Longrightarrow>
   \<exists>r. findNearestNav navData t = Some r \<and> r \<in> set navData
     \<and> (\<forall>e \<in> set navData. timeDiff r t \<le> timeDiff e t)
     \<and> (\<exists>i < length navData. navData ! i = r \<and> (\<forall>j < i. timeDiff r t < timeDiff (navData ! j) t))
     \<and> (ascending navData \<longrightarrow>
          (\<forall>e \<in> set navData. timeDiff e t = timeDiff r t \<longrightarrow> date r \<le> date e)
          \<and> findNearestNav_mfApi navData t = Some r)"
proof -
  assume ne: "navData \<noteq> []"
  then obtain x where "x \<in> set navData" by (cases navData) auto
  then have "\<not> (\<forall>e \<in> set navData. \<not> below (timeDiff e t) None)" by auto
  with scanNearest_split [of navData t None None]
  obtain ys r zs where r: "scanNearest navData t None None = Some r" "navData = ys @ r # zs"
      "\<forall>e \<in> set ys. timeDiff r t < timeDiff e t" "\<forall>e \<in> set zs. timeDiff r t \<le> timeDiff e t"
    by blast
  have f: "findNearestNav navData t = Some r" using r(1) by (simp add: findNearestNav_def)
  have m: "r \<in> set navData" using r(2) by simp
  have least: "\<forall>e \<in> set navData. timeDiff r t \<le> timeDiff e t"
    using r(2,3,4) by auto
  have idx: "\<exists>i < length navData. navData ! i = r \<and> (\<forall>j < i. timeDiff r t < timeDiff (navData ! j) t)"
  proof (intro exI [of _ "length ys"] conjI allI impI)
    show "length ys < length navData" using r(2) by simp
    show "navData ! length ys = r" using r(2) by simp
    fix j assume "j < length ys"
    then have "navData ! j = ys ! j" "ys ! j \<in> set ys" using r(2) by (simp_all add: nth_append)
    then show "timeDiff r t < timeDiff (navData ! j) t" using r(3) by simp
  qed
  have asc: "(\<forall>e \<in> set navData. timeDiff e t = timeDiff r t \<longrightarrow> date r \<le> date e)
          \<and> findNearestNav_mfApi navData t = Some r" if a: "ascending navData"
  proof
    have z: "\<forall>e \<in> set zs. date r \<le> date e"
      using a r(2) ascending_append_Cons by blast
    show "\<forall>e \<in> set navData. timeDiff e t = timeDiff r t \<longrightarrow> date r \<le> date e"
      using r(2,3) z by auto
    show "findNearestNav_mfApi navData t = Some r"
      using scanNearestBreak_eq [OF a] r(1) by (simp add: findNearestNav_mfApi_def)
  qed
  show ?thesis using f m least idx asc by blast
qed

theorem nearest_minimal_first_wins_witness:
  "[\<lparr>date = 20, nav = 2\<rparr>, \<lparr>date = 0, nav = 1\<rparr>] \<noteq> []
   \<and> findNearestNav [\<lparr>date = 20, nav = 2\<rparr>, \<lparr>date = 0, nav = 1\<rparr>] 3 = Some \<lparr>date = 0, nav = 1\<rparr>
   \<and> ascending [\<lparr>date = 0, nav = 1\<rparr>, \<lparr>date = 20, nav = 2\<rparr>]
   \<and> findNearestNav [\<lparr>date = 0, nav = 1\<rparr>, \<lparr>date = 20, nav = 2\<rparr>] 10 = Some \<lparr>date = 0, nav = 1\<rparr>
   \<and> findNearestNav_mfApi [\<lparr>date = 0, nav = 1\<rparr>, \<lparr>date = 20, nav = 2\<rparr>] 10 = Some \<lparr>date = 0, nav = 1\<rparr>"
  using nearest_minimal_first_wins [of "[\<lparr>date = 20, nav = 2\<rparr>, \<lparr>date = 0, nav = 1\<rparr>]" 3]
    nearest_minimal_first_wins [of "[\<lparr>date = 0, nav = 1\<rparr>, \<lparr>date = 20, nav = 2\<rparr>]" 10]
  by (simp add: findNearestNav_def findNearestNav_mfApi_def timeDiff_def ascending_def)

section \<open>The current valuation\<close>

text \<open>
  C4, as stated, fails: the current valuation is read at index 0 of the raw records, which
  are never sorted.  Supplied oldest first, the two records below give the value of the
  chronologically lowest date.
\<close>

theorem latest_is_first_counterexample:
  "currentNav [\<lparr>date = 1577836800000, nav = 10\<rparr>, \<lparr>date = 1672531200000, nav = 20\<rparr>] = 10
   \<and> latestNavValue [\<lparr>date = 1577836800000, nav = 10\<rparr>, \<lparr>date = 1672531200000, nav = 20\<rparr>] = 10
   \<and> date \<lparr>date = 1577836800000, nav = 10\<rparr> < date \<lparr>date = 1672531200000, nav = 20\<rparr>
   \<and> nav \<lparr>date = 1672531200000, nav = 20\<rparr> = 20"
  by (simp add: currentNav_def latestNavValue_def)

lemma descending_hd: "descending xs \<Longrightarrow> e \<in> set xs \<Longrightarrow> date e \<le> date (hd xs)"
  by (cases xs) (auto simp: descending_def)

lemma descending_last: "descending xs \<Longrightarrow> e \<in> set xs \<Longrightarrow> date (last xs) \<le> date e"
proof (induction xs)
  case Nil
  then show ?case by simp
next
  case (Cons x xs)
  then show ?case
    by (cases "xs = []") (auto simp: descending_def)
qed

text \<open>
  C4, amended.  For every non-empty series the value used as the current valuation is the
  value of the first record in the order the raw records were supplied; when they are
  supplied newest first (descending by date), that record has the chronologically highest
  date of the series.
\<close>

theorem latest_is_first_record:
  "navData \<noteq> [] \<Longrightarrow>
   currentNav navData = nav (hd navData) \<and> latestNavValue navData = nav (hd navData)
   \<and> (descending navData \<longrightarrow> (\<forall>e \<in> set navData. date e \<le> date (hd navData)))"
  by (cases navData) (auto simp: currentNav_def latestNavValue_def dest: descending_hd)

theorem latest_is_first_record_witness:
  "[\<lparr>date = 1672531200000, nav = 20\<rparr>, \<lparr>date = 1577836800000, nav = 10\<rparr>] \<noteq> []
   \<and> descending [\<lparr>date = 1672531200000, nav = 20\<rparr>, \<lparr>date = 1577836800000, nav = 10\<rparr>]
   \<and> currentNav [\<lparr>date = 1672531200000, nav = 20\<rparr>, \<lparr>date = 1577836800000, nav = 10\<rparr>] = 20"
  using latest_is_first_record [of "[\<lparr>date = 1672531200000, nav = 20\<rparr>, \<lparr>date = 1577836800000, nav = 10\<rparr>]"]
  by (simp add: descending_def)

section \<open>Trailing return over the whole series\<close>

text \<open>
  C8, as stated, fails: for the window ALL the start value is read from the last record of
  the raw sequence and the latest value from the first.  On the two records in the order
  the claim lists them the change is -50 and not positive.
\<close>

theorem trailing_return_all_counterexample:
  "periodReturns sampleEnv [\<lparr>date = 1577836800000, nav = 10\<rparr>, \<lparr>date = 1672531200000, nav = 20\<rparr>] P_ALL
     = Some \<lparr>change = - 50, isPositive = False\<rparr>"
  by (simp add: periodReturns_def)

text \<open>
  C8, amended.  For the window ALL, on a non-empty series whose last record has a positive
  value, the start value is the value of the last record of the raw sequence, the latest
  value that of the first, and changePercent = (latest - start) / start * 100; when the
  records are supplied newest first, the last record is the chronologically earliest and
  the first the chronologically latest.  The series of 2020-01-01 (value 10) and 2023-01-01
  (value 20), supplied newest first, yields changePercent = 100 and isPositive = true.
\<close>

theorem trailing_return_all:
  "(data \<noteq> [] \<and> 0 < nav (last data) \<longrightarrow>
      periodReturns env data P_ALL
        = Some \<lparr>change = ((nav (hd data) - nav (last data)) / nav (last data)) * 100,
                isPositive = (((nav (hd data) - nav (last data)) / nav (last data)) * 100 \<ge> 0)\<rparr>
      \<and> (descending data \<longrightarrow> (\<forall>e \<in> set data. date (last data) \<le> date e \<and> date e \<le> date (hd data))))
   \<and> periodReturns env [\<lparr>date = 1672531200000, nav = 20\<rparr>, \<lparr>date = 1577836800000, nav = 10\<rparr>] P_ALL
        = Some \<lparr>change = 100, isPositive = True\<rparr>"
proof (intro conjI impI)
  assume a: "data \<noteq> [] \<and> 0 < nav (last data)"
  then obtain x xs where d: "data = x # xs" by (cases data) auto
  show "periodReturns env data P_ALL
        = Some \<lparr>change = ((nav (hd data) - nav (last data)) / nav (last data)) * 100,
                isPositive = (((nav (hd data) - nav (last data)) / nav (last data)) * 100 \<ge> 0)\<rparr>"
    using a unfolding d periodReturns_def by (simp add: Let_def)
  show "\<forall>e \<in> set data. date (last data) \<le> date e \<and> date e \<le> date (hd data)" if "descending data"
    using that descending_hd descending_last by blast
next
  show "periodReturns env [\<lparr>date = 1672531200000, nav = 20\<rparr>, \<lparr>date = 1577836800000, nav = 10\<rparr>] P_ALL
        = Some \<lparr>change = 100, isPositive = True\<rparr>"
    by (simp add: periodReturns_def)
qed

theorem trailing_return_all_witness:
  "[\<lparr>date = 1672531200000, nav = 20\<rparr>, \<lparr>date = 1577836800000, nav = 10\<rparr>] \<noteq> []
   \<and> (0::real) < nav (last [\<lparr>date = 1672531200000, nav = 20\<rparr>, \<lparr>date = 1577836800000, nav = 10\<rparr>])
   \<and> descending [\<lparr>date = 1672531200000, nav = 20\<rparr>, \<lparr>date = 1577836800000, nav = 10\<rparr>]
   \<and> periodReturns sampleEnv [\<lparr>date = 1672531200000, nav = 20\<rparr>, \<lparr>date = 1577836800000, nav = 10\<rparr>] P_ALL
        = Some \<lparr>change = 100, isPositive = True\<rparr>"
  using trailing_return_all [of "[\<lparr>date = 1672531200000, nav = 20\<rparr>, \<lparr>date = 1577836800000, nav = 10\<rparr>]" sampleEnv]
  by (simp add: descending_def)

section \<open>Lump-sum projection\<close>

lemma monthly_bounds:
  "(164530 :: real) < 100000 * (121 / 120) ^ 60 \<and> 100000 * (121 / 120) ^ 60 < (164531 :: real)"
  by (simp add: divide_simps)

lemma lumpsum_value:
  "FutureProjection_result OneTime 100000 5 10 stepUpPercent
     = Some (projection 100000 (100000 * (121 / 120) ^ 60))"
  by (simp add: FutureProjection_result_def Let_def)

text \<open>
  C9, as stated, fails in its value: the projection compounds monthly at a twelfth of the
  annual rate, which gives more than 164530, over 3479 above 161051.
\<close>

theorem lumpsum_projection_counterexample:
  "map_option futureValue (FutureProjection_result OneTime 100000 5 10 10)
     = Some (100000 * (121 / 120) ^ 60)
   \<and> (100000 * (121 / 120) ^ 60 - 161051 > (3479 :: real))"
proof -
  have "(3479 :: real) < 100000 * (121 / 120) ^ 60 - 161051"
    using monthly_bounds by linarith
  then show ?thesis
    by (simp only: lumpsum_value option.map projection_def Let_def ProjectionResult.simps simp_thms)
qed

text \<open>
  C9, amended.  Lump-sum projection with amount 100000, 5 years and an annual return of
  10 percent returns totalInvested = 100000 and futureValue = 100000 * (1 + 0.10 / 12) ^ 60,
  a value between 164530 and 164531.
\<close>

theorem lumpsum_projection_monthly:
  "\<exists>r. FutureProjection_result OneTime 100000 5 10 stepUpPercent = Some r
       \<and> ProjectionResult.totalInvested r = 100000
       \<and> futureValue r = 100000 * (1 + 10 / 100 / 12) ^ (5 * 12)
       \<and> 164530 < futureValue r \<and> futureValue r < 164531"
proof -
  have e: "(1 + 10 / 100 / 12 :: real) = 121 / 120" "(5 * 12 :: nat) = 60" by simp_all
  show ?thesis
    using monthly_bounds
    by (simp only: lumpsum_value e projection_def Let_def ProjectionResult.simps simp_thms option.inject
          ex_simps)
qed

section \<open>Historical simulation on an empty series\<close>

text \<open>
  C2, as stated, fails: \<^verbatim>\<open>PastAnalysis\<close> returns \<^verbatim>\<open>null\<close> for an empty series, in
  the schedule modes too, because the guard on \<^verbatim>\<open>navData.length\<close> precedes the loop.
\<close>

theorem empty_series_schedule_counterexample:
  "PastAnalysis_result sampleEnv [] Sip 5000 10 2023 1 = None"
  by (simp add: PastAnalysis_result_def)

lemma sipLoop_not_entered:
  "endDate env < currentDate st \<Longrightarrow>
   sipLoop navData env investmentType amount stepUpPercent startYear st = st"
  by (subst sipLoop.simps) simp

text \<open>
  C2, amended.  For every contribution schedule, when the valuation series is empty,
  schedule-mode simulation returns no result (\<^verbatim>\<open>null\<close>).  The success result whose
  totalInvested, currentValue, totalUnits and returns are all zero and whose isProfit flag
  is true is what a non-empty series gives for a schedule without any contribution, one
  whose start month lies after the current month.
\<close>

theorem empty_series_schedule:
  "PastAnalysis_result env [] investmentType amount stepUpPercent selectedYear selectedMonth = None
   \<and> (navData \<noteq> [] \<and> amount \<noteq> 0 \<and> selectedYear \<noteq> 0 \<and> investmentType \<noteq> OneTime
        \<and> endDate env < newDate (int selectedYear) (int selectedMonth - 1) \<longrightarrow>
      (\<exists>r. PastAnalysis_result env navData investmentType amount stepUpPercent selectedYear selectedMonth = Some r
         \<and> SipResult.totalInvested r = 0 \<and> currentValue r = 0 \<and> SipResult.totalUnits r = 0
         \<and> SipResult.returns r = 0 \<and> SipResult.isProfit r \<and> yearlyBreakdown r = []))"
proof (intro conjI impI)
  show "PastAnalysis_result env [] investmentType amount stepUpPercent selectedYear selectedMonth = None"
    by (simp add: PastAnalysis_result_def)
next
  let ?start = "newDate (int selectedYear) (int selectedMonth - 1)"
  assume a: "navData \<noteq> [] \<and> amount \<noteq> 0 \<and> selectedYear \<noteq> 0 \<and> investmentType \<noteq> OneTime
        \<and> endDate env < ?start"
  then have t: "investmentType = Sip \<or> investmentType = StepUp"
    by (cases investmentType) auto
  have "endDate env < currentDate (sipInit ?start amount)"
    using a by (simp add: sipInit_def)
  then have loop: "sipLoop navData env investmentType amount stepUpPercent (getFullYear ?start)
      (sipInit ?start amount) = sipInit ?start amount"
    by (rule sipLoop_not_entered)
  have res: "PastAnalysis_result env navData investmentType amount stepUpPercent selectedYear selectedMonth
      = Some (sipResult navData env investmentType amount stepUpPercent ?start)"
    using a t by (simp add: PastAnalysis_result_def Let_def)
  show "\<exists>r. PastAnalysis_result env navData investmentType amount stepUpPercent selectedYear selectedMonth = Some r
         \<and> SipResult.totalInvested r = 0 \<and> currentValue r = 0 \<and> SipResult.totalUnits r = 0
         \<and> SipResult.returns r = 0 \<and> SipResult.isProfit r \<and> yearlyBreakdown r = []"
    unfolding res sipResult_def loop
    by (simp add: Let_def sipInit_def sortedYears_def)
qed

theorem empty_series_schedule_witness:
  "[\<lparr>date = 1672531200000, nav = 20\<rparr>] \<noteq> [] \<and> (5000 :: real) \<noteq> 0 \<and> (2027 :: nat) \<noteq> 0 \<and> Sip \<noteq> OneTime
   \<and> endDate sampleEnv < newDate (int 2027) (int 1 - 1)
   \<and> PastAnalysis_result sampleEnv [] Sip 5000 10 2027 1 = None
   \<and> map_option SipResult.totalInvested
        (PastAnalysis_result sampleEnv [\<lparr>date = 1672531200000, nav = 20\<rparr>] Sip 5000 10 2027 1) = Some 0
   \<and> map_option SipResult.isProfit
        (PastAnalysis_result sampleEnv [\<lparr>date = 1672531200000, nav = 20\<rparr>] Sip 5000 10 2027 1) = Some True"
proof -
  have h: "[\<lparr>date = 1672531200000, nav = 20\<rparr>] \<noteq> [] \<and> (5000 :: real) \<noteq> 0 \<and> (2027 :: nat) \<noteq> 0 \<and> Sip \<noteq> OneTime
   \<and> endDate sampleEnv < newDate (int 2027) (int 1 - 1)"
    by (simp add: endDate_def sampleEnv_def newDate_def fullYear_def)
  from empty_series_schedule [of sampleEnv Sip 5000 10 2027 1 "[\<lparr>date = 1672531200000, nav = 20\<rparr>]"] h
  show ?thesis by auto
qed

lemma findNearestNav_nonempty:
  "navData \<noteq> [] \<Longrightarrow> \<exists>r. findNearestNav navData t = Some r \<and> r \<in> set navData"
proof -
  assume "navData \<noteq> []"
  then obtain x where "x \<in> set navData" by (cases navData) auto
  then have "\<not> (\<forall>e \<in> set navData. \<not> below (timeDiff e t) None)" by auto
  with scanNearest_split [of navData t None None]
  obtain ys r zs where "scanNearest navData t None None = Some r" "navData = ys @ r # zs"
    by blast
  then show ?thesis by (auto simp: findNearestNav_def)
qed


text \<open>
  C3.  For every purchase date (a selected year and month) and every positive amount,
  lump-sum simulation against an empty series yields no result (\<^verbatim>\<open>null\<close>), hence never
  a zero-filled success; for a non-empty series of positive valuations it succeeds with
  units = amount / purchaseValuation, the valuation being that of the record the
  nearest-date lookup returns for the purchase date.
\<close>

theorem lumpsum_simulation:
  assumes "0 < amount" and "selectedYear \<noteq> 0"
  shows "PastAnalysis_result env [] OneTime amount stepUpPercent selectedYear selectedMonth = None
    \<and> (navData \<noteq> [] \<and> (\<forall>e \<in> set navData. 0 < nav e) \<longrightarrow>
        (\<exists>r purchaseNav.
            PastAnalysis_result env navData OneTime amount stepUpPercent selectedYear selectedMonth = Some r
          \<and> findNearestNav navData (dateTime env (newDate (int selectedYear) (int selectedMonth - 1)))
              = Some purchaseNav
          \<and> 0 < nav purchaseNav
          \<and> SipResult.totalUnits r = amount / nav purchaseNav
          \<and> SipResult.totalInvested r = amount))"
proof (intro conjI impI)
  show "PastAnalysis_result env [] OneTime amount stepUpPercent selectedYear selectedMonth = None"
    by (simp add: PastAnalysis_result_def)
next
  let ?t = "dateTime env (newDate (int selectedYear) (int selectedMonth - 1))"
  assume a: "navData \<noteq> [] \<and> (\<forall>e \<in> set navData. 0 < nav e)"
  then obtain p where p: "findNearestNav navData ?t = Some p" "p \<in> set navData"
    using findNearestNav_nonempty by blast
  then have pos: "0 < nav p" using a by blast
  have "\<exists>r. PastAnalysis_result env navData OneTime amount stepUpPercent selectedYear selectedMonth = Some r
      \<and> SipResult.totalUnits r = amount / nav p \<and> SipResult.totalInvested r = amount"
    using assms a p(1) by (simp add: PastAnalysis_result_def oneTimeResult_def Let_def)
  then show "\<exists>r purchaseNav.
            PastAnalysis_result env navData OneTime amount stepUpPercent selectedYear selectedMonth = Some r
          \<and> findNearestNav navData ?t = Some purchaseNav
          \<and> 0 < nav purchaseNav
          \<and> SipResult.totalUnits r = amount / nav purchaseNav
          \<and> SipResult.totalInvested r = amount"
    using p(1) pos by blast
qed

theorem lumpsum_simulation_witness:
  "(0 :: real) < 100000 \<and> (2020 :: nat) \<noteq> 0
   \<and> [\<lparr>date = 1672531200000, nav = 20\<rparr>, \<lparr>date = 1577836800000, nav = 10\<rparr>] \<noteq> []
   \<and> 0 < nav \<lparr>date = 1672531200000, nav = 20\<rparr> \<and> 0 < nav \<lparr>date = 1577836800000, nav = 10\<rparr>
   \<and> PastAnalysis_result sampleEnv [] OneTime 100000 10 2020 1 = None
   \<and> findNearestNav [\<lparr>date = 1672531200000, nav = 20\<rparr>, \<lparr>date = 1577836800000, nav = 10\<rparr>]
        (dateTime sampleEnv (newDate (int 2020) (int 1 - 1))) = Some \<lparr>date = 1577836800000, nav = 10\<rparr>
   \<and> map_option SipResult.totalUnits
        (PastAnalysis_result sampleEnv [\<lparr>date = 1672531200000, nav = 20\<rparr>, \<lparr>date = 1577836800000, nav = 10\<rparr>]
           OneTime 100000 10 2020 1) = Some 10000"
proof -
  have t: "dateTime sampleEnv (newDate 2020 0) = 1577836800000"
    by (simp add: dateTime_def sampleEnv_def newDate_def fullYear_def getFullYear_def getMonth_def
          utcTime_def civilDays_def)
  have f: "findNearestNav [\<lparr>date = 1672531200000, nav = 20\<rparr>, \<lparr>date = 1577836800000, nav = 10\<rparr>]
        1577836800000 = Some \<lparr>date = 1577836800000, nav = 10\<rparr>"
    by (simp add: findNearestNav_def timeDiff_def)
  have h1: "(0 :: real) < 100000" and h2: "(2020 :: nat) \<noteq> 0" by simp_all
  from lumpsum_simulation [OF h1 h2, of sampleEnv 10 1
      "[\<lparr>date = 1672531200000, nav = 20\<rparr>, \<lparr>date = 1577836800000, nav = 10\<rparr>]"]
  show ?thesis
    by (auto simp: t f)
qed

section \<open>Step-up projection without step-up\<close>

text \<open>The inner loop adds twelve contributions, each grown for its remaining months.\<close>

lemma stepUpMonths_sum:
  "month \<le> 12 \<Longrightarrow>
   stepUpMonths r a R month (ti, fv)
     = (ti + real (12 - month) * a, fv + a * (\<Sum>j = month..<12. (1 + r) ^ (R - j)))"
proof (induction "12 - month" arbitrary: month ti fv)
  case 0
  then have "month = 12" by simp
  then show ?case by (subst stepUpMonths.simps) simp
next
  case (Suc n)
  then have lt: "month < 12" and le: "month + 1 \<le> 12" and n: "n = 12 - (month + 1)"
    by simp_all
  have s: "(\<Sum>j = month..<12. (1 + r) ^ (R - j))
      = (1 + r) ^ (R - month) + (\<Sum>j = month + 1..<12. (1 + r) ^ (R - j))"
    using lt by (simp add: sum.atLeast_Suc_lessThan)
  have r: "real (12 - month) = 1 + real (12 - (month + 1))"
    using lt by simp
  have "stepUpMonths r a R month (ti, fv)
      = stepUpMonths r a R (month + 1) (ti + a, fv + a * (1 + r) ^ (R - month))"
    using lt by (subst stepUpMonths.simps) (simp add: Let_def)
  also have "\<dots> = (ti + a + real (12 - (month + 1)) * a,
      fv + a * (1 + r) ^ (R - month) + a * (\<Sum>j = month + 1..<12. (1 + r) ^ (R - j)))"
    by (rule Suc.hyps(1) [OF n le])
  finally show ?case
    by (simp only: s r) (simp add: algebra_simps)
qed

lemma twelve_terms:
  fixes q :: real
  shows "(\<Sum>j = 0..<12. q ^ (E + 12 - j)) * (q - 1) = q ^ (E + 13) - q ^ (E + 1)"
proof -
  have "(\<Sum>j = 0..<12. q ^ (E + 12 - j)) = (\<Sum>j = 0..<12. q ^ (E + 1) * q ^ (11 - j))"
  proof (rule sum.cong)
    fix x :: nat assume "x \<in> {0..<12}"
    then have "E + 12 - x = (E + 1) + (11 - x)" by auto
    then show "q ^ (E + 12 - x) = q ^ (E + 1) * q ^ (11 - x)"
      by (simp only: power_add)
  qed simp
  also have "\<dots> = q ^ (E + 1) * (\<Sum>j = 0..<12. q ^ (11 - j))"
    by (simp only: sum_distrib_left)
  finally have "(\<Sum>j = 0..<12. q ^ (E + 12 - j)) * (q - 1)
      = q ^ (E + 1) * ((\<Sum>j = 0..<12. q ^ (11 - j)) * (q - 1))"
    by simp
  also have "(\<Sum>j = 0..<12. q ^ (11 - j)) * (q - 1) = q ^ 12 - 1"
    by (simp add: eval_nat_numeral algebra_simps)
  finally have a: "(\<Sum>j = 0..<12. q ^ (E + 12 - j)) * (q - 1) = q ^ (E + 1) * (q ^ 12 - 1)" .
  have "E + 13 = (E + 1) + 12" by simp
  then have "q ^ (E + 13) = q ^ (E + 1) * q ^ 12"
    by (simp only: power_add)
  then show ?thesis
    unfolding a by (simp add: right_diff_distrib)
qed

text \<open>
  With a step-up of 0 percent the outer loop, entered at year \<open>yr\<close>, adds the same amount
  every month; the sum of the grown contributions is the annuity-due value of the
  remaining years.
\<close>

lemma stepUpYears_closed:
  assumes "r \<noteq> 0"
  shows "yr \<le> years \<Longrightarrow>
   stepUpYears r 0 years yr (ti, fv, a)
     = (ti + 12 * real (years - yr) * a,
        fv + a * (((1 + r) ^ (12 * (years - yr)) - 1) / r) * (1 + r), a)"
proof (induction "years - yr" arbitrary: yr ti fv)
  case 0
  then have "\<not> yr < years" by simp
  then show ?case using 0 by (subst stepUpYears.simps) simp
next
  case (Suc n)
  then have lt: "yr < years" and le: "yr + 1 \<le> years" and n: "n = years - (yr + 1)"
    by simp_all
  define E where "E = 12 * n"
  have R: "(years - yr) * 12 = E + 12" using Suc.hyps(2) by (simp add: E_def)
  have inner: "stepUpMonths r a ((years - yr) * 12) 0 (ti, fv)
      = (ti + 12 * a, fv + a * (\<Sum>j = 0..<12. (1 + r) ^ (E + 12 - j)))"
    using stepUpMonths_sum [of 0 r a "(years - yr) * 12" ti fv] by (simp add: R)
  have "stepUpYears r 0 years yr (ti, fv, a)
      = stepUpYears r 0 years (yr + 1)
          (ti + 12 * a, fv + a * (\<Sum>j = 0..<12. (1 + r) ^ (E + 12 - j)), a)"
    using lt by (subst stepUpYears.simps) (simp add: Let_def inner)
  also have "\<dots> = (ti + 12 * a + 12 * real (years - (yr + 1)) * a,
      fv + a * (\<Sum>j = 0..<12. (1 + r) ^ (E + 12 - j))
         + a * (((1 + r) ^ (12 * (years - (yr + 1))) - 1) / r) * (1 + r), a)"
    by (rule Suc.hyps(1) [OF n le])
  finally have step: "stepUpYears r 0 years yr (ti, fv, a)
      = (ti + 12 * a + 12 * real n * a,
         fv + a * (\<Sum>j = 0..<12. (1 + r) ^ (E + 12 - j))
            + a * (((1 + r) ^ E - 1) / r) * (1 + r), a)"
    using n by (simp add: E_def)
  have d: "years - yr = Suc n" using Suc.hyps(2) by simp
  have tw: "(\<Sum>j = 0..<12. (1 + r) ^ (E + 12 - j)) * r = (1 + r) ^ (E + 13) - (1 + r) ^ (E + 1)"
    using twelve_terms [of "1 + r" E] by simp
  have sm: "(\<Sum>j = 0..<12. (1 + r) ^ (E + 12 - j)) = ((1 + r) ^ (E + 13) - (1 + r) ^ (E + 1)) / r"
    using tw assms by (simp add: field_simps)
  have fvq: "(\<Sum>j = 0..<12. (1 + r) ^ (E + 12 - j)) + (((1 + r) ^ E - 1) / r) * (1 + r)
      = (((1 + r) ^ (12 * Suc n) - 1) / r) * (1 + r)"
  proof -
    have e: "12 * Suc n = E + 12" by (simp add: E_def)
    have "E + 13 = Suc (E + 12)" by simp
    then have p: "(1 + r) ^ (E + 13) = (1 + r) ^ (E + 12) * (1 + r)"
      "(1 + r) ^ (E + 1) = (1 + r) ^ E * (1 + r)"
      by (simp_all only: power_Suc2 power_add power_one_right)
    show ?thesis
      unfolding sm e p using assms
      by (simp add: field_simps)
  qed
  have "fv + a * (\<Sum>j = 0..<12. (1 + r) ^ (E + 12 - j)) + a * (((1 + r) ^ E - 1) / r) * (1 + r)
      = fv + a * ((\<Sum>j = 0..<12. (1 + r) ^ (E + 12 - j)) + (((1 + r) ^ E - 1) / r) * (1 + r))"
    by (simp add: algebra_simps)
  also have "\<dots> = fv + a * ((((1 + r) ^ (12 * Suc n) - 1) / r) * (1 + r))"
    by (simp only: fvq)
  finally have fveq: "fv + a * (\<Sum>j = 0..<12. (1 + r) ^ (E + 12 - j)) + a * (((1 + r) ^ E - 1) / r) * (1 + r)
      = fv + a * (((1 + r) ^ (12 * Suc n) - 1) / r) * (1 + r)"
    by (simp add: algebra_simps)
  have tieq: "ti + 12 * a + 12 * real n * a = ti + 12 * real (Suc n) * a"
    by (simp add: algebra_simps)
  show ?case
    unfolding step d fveq tieq by simp
qed

text \<open>
  In exact arithmetic and for a whole number of years, the step-up projection with a
  step-up of 0 percent and the regular projection agree in both fields.
\<close>

lemma stepup_zero_whole_years:
  "map_option ProjectionResult.totalInvested (FutureProjection_result StepUp amount years annualReturn 0)
     = map_option ProjectionResult.totalInvested (FutureProjection_result Sip amount years annualReturn stepUpPercent)
   \<and> map_option futureValue (FutureProjection_result StepUp amount years annualReturn 0)
     = map_option futureValue (FutureProjection_result Sip amount years annualReturn stepUpPercent)"
proof (cases "amount = 0 \<or> years = 0 \<or> annualReturn = 0")
  case True
  then show ?thesis by (auto simp: FutureProjection_result_def)
next
  case False
  then have r: "annualReturn / 100 / 12 \<noteq> 0" by simp
  have "stepUpYears (annualReturn / 100 / 12) 0 years 0 (0, 0, amount)
      = (12 * real years * amount,
         amount * (((1 + annualReturn / 100 / 12) ^ (12 * years) - 1) / (annualReturn / 100 / 12))
           * (1 + annualReturn / 100 / 12), amount)"
    using stepUpYears_closed [OF r, of 0 years 0 0 amount] by simp
  then show ?thesis
    using False by (simp add: FutureProjection_result_def Let_def projection_def mult.commute)
qed

section \<open>The month loop as iteration of its body\<close>

lemma currentDate_sipBody:
  "currentDate (sipBody navData env investmentType amount stepUpPercent startYear st) = currentDate st + 1"
  by (simp add: sipBody_def invest_def applyStepUp_def Let_def split: option.splits)

lemma currentDate_funpow:
  "currentDate ((sipBody navData env investmentType amount stepUpPercent startYear ^^ n) st)
     = currentDate st + int n"
  by (induction n) (simp_all add: currentDate_sipBody)

text \<open>
  The loop runs its body once for every month from the start month to the current month:
  the states in which the body is entered are the iterates of the body on the initial state.
\<close>

lemma sipLoop_funpow:
  "sipLoop navData env investmentType amount stepUpPercent startYear st
     = (sipBody navData env investmentType amount stepUpPercent startYear
          ^^ nat (endDate env + 1 - currentDate st)) st"
proof (induction "nat (endDate env + 1 - currentDate st)" arbitrary: st)
  case 0
  then have "\<not> currentDate st \<le> endDate env" by simp
  then show ?case using 0 by (subst sipLoop.simps) simp
next
  case (Suc n)
  let ?b = "sipBody navData env investmentType amount stepUpPercent startYear"
  have le: "currentDate st \<le> endDate env" using Suc.hyps(2) by simp
  have n: "n = nat (endDate env + 1 - currentDate (?b st))"
    using Suc.hyps(2) by (simp add: currentDate_sipBody)
  have "sipLoop navData env investmentType amount stepUpPercent startYear st
      = sipLoop navData env investmentType amount stepUpPercent startYear (?b st)"
    using le by (subst sipLoop.simps) simp
  also have "\<dots> = (?b ^^ n) (?b st)"
    using Suc.hyps(1) [OF n] n by simp
  also have "\<dots> = (?b ^^ Suc n) st"
    by (simp only: funpow_Suc_right o_apply)
  finally show ?case using Suc.hyps(2) by simp
qed

text \<open>The step-up block leaves the amount of the current year offset in \<open>currentAmount\<close>.\<close>

lemma applyStepUp_amount:
  assumes "0 \<le> yearCounter st" and "yearCounter st \<le> getFullYear (currentDate st) - startYear"
    and "currentAmount st = amount * (1 + stepUpPercent / 100) ^ nat (yearCounter st)"
  shows "yearCounter (applyStepUp StepUp amount stepUpPercent startYear st)
           = getFullYear (currentDate st) - startYear
       \<and> currentAmount (applyStepUp StepUp amount stepUpPercent startYear st)
           = amount * (1 + stepUpPercent / 100) ^ nat (getFullYear (currentDate st) - startYear)"
proof (cases "getFullYear (currentDate st) - startYear > yearCounter st")
  case True
  then show ?thesis by (simp add: applyStepUp_def Let_def)
next
  case False
  then have "yearCounter st = getFullYear (currentDate st) - startYear" using assms(2) by simp
  then show ?thesis using assms(3) by (simp add: applyStepUp_def Let_def)
qed

lemma invest_keeps:
  "currentAmount (invest navData env st) = currentAmount st"
  "yearCounter (invest navData env st) = yearCounter st"
  "currentDate (invest navData env st) = currentDate st"
  by (simp_all add: invest_def Let_def split: option.splits)

lemma stepUp_invariant:
  "0 \<le> yearCounter ((sipBody navData env StepUp amount stepUpPercent (getFullYear startDate) ^^ n) (sipInit startDate amount))
     \<and> yearCounter ((sipBody navData env StepUp amount stepUpPercent (getFullYear startDate) ^^ n) (sipInit startDate amount))
          \<le> getFullYear (startDate + int n) - getFullYear startDate
     \<and> currentAmount ((sipBody navData env StepUp amount stepUpPercent (getFullYear startDate) ^^ n) (sipInit startDate amount))
          = amount * (1 + stepUpPercent / 100)
              ^ nat (yearCounter ((sipBody navData env StepUp amount stepUpPercent (getFullYear startDate) ^^ n) (sipInit startDate amount)))"
proof (induction n)
  case 0
  show ?case by (simp add: sipInit_def)
next
  case (Suc n)
  let ?b = "sipBody navData env StepUp amount stepUpPercent (getFullYear startDate)"
  let ?st = "(?b ^^ n) (sipInit startDate amount)"
  have d: "currentDate ?st = startDate + int n"
    by (simp add: currentDate_funpow sipInit_def)
  have a: "yearCounter (applyStepUp StepUp amount stepUpPercent (getFullYear startDate) ?st)
           = getFullYear (startDate + int n) - getFullYear startDate
       \<and> currentAmount (applyStepUp StepUp amount stepUpPercent (getFullYear startDate) ?st)
           = amount * (1 + stepUpPercent / 100) ^ nat (getFullYear (startDate + int n) - getFullYear startDate)"
    using applyStepUp_amount [of ?st "getFullYear startDate" amount stepUpPercent] Suc.IH d by simp
  have nx: "(?b ^^ Suc n) (sipInit startDate amount) = ?b ?st" by simp
  have yc: "yearCounter (?b ?st) = getFullYear (startDate + int n) - getFullYear startDate"
    and ca: "currentAmount (?b ?st)
       = amount * (1 + stepUpPercent / 100) ^ nat (getFullYear (startDate + int n) - getFullYear startDate)"
    using a unfolding sipBody_def by (simp_all add: Let_def invest_keeps)
  have mono: "getFullYear (startDate + int n) \<le> getFullYear (startDate + int (Suc n))"
    unfolding getFullYear_def by (rule zdiv_mono1) simp_all
  have nonneg: "getFullYear startDate \<le> getFullYear (startDate + int n)"
    unfolding getFullYear_def by (rule zdiv_mono1) simp_all
  show ?case
    unfolding nx yc ca using mono nonneg by simp
qed

lemma contribution_stepUp:
  assumes "navData \<noteq> []"
  shows "contribution navData env StepUp amount stepUpPercent startDate n
       = amount * (1 + stepUpPercent / 100)
           ^ nat (getFullYear (startDate + int n) - getFullYear startDate)"
proof -
  let ?b = "sipBody navData env StepUp amount stepUpPercent (getFullYear startDate)"
  let ?st = "(?b ^^ n) (sipInit startDate amount)"
  let ?st' = "applyStepUp StepUp amount stepUpPercent (getFullYear startDate) ?st"
  have d: "currentDate ?st = startDate + int n"
    by (simp add: currentDate_funpow sipInit_def)
  have a: "currentAmount ?st'
      = amount * (1 + stepUpPercent / 100) ^ nat (getFullYear (startDate + int n) - getFullYear startDate)"
    using applyStepUp_amount [of ?st "getFullYear startDate" amount stepUpPercent]
      stepUp_invariant [where navData = navData and env = env and amount = amount
        and stepUpPercent = stepUpPercent and startDate = startDate and n = n] d by simp
  have ti: "SipState.totalInvested ?st' = SipState.totalInvested ?st"
    by (simp add: applyStepUp_def Let_def)
  obtain r where "findNearestNav navData (dateTime env (currentDate ?st')) = Some r"
    using findNearestNav_nonempty [OF assms] by blast
  then have "SipState.totalInvested (?b ?st) = SipState.totalInvested ?st' + currentAmount ?st'"
    by (simp add: sipBody_def invest_def Let_def)
  then show ?thesis
    by (simp add: contribution_def a ti)
qed



section \<open>The yearly breakdown\<close>

lemma bump_absent:
  "y \<notin> fst ` set yd \<Longrightarrow>
   map (\<lambda>(yr, d). if yr = y
          then (yr, d\<lparr>YearData.invested := YearData.invested d + a, YearData.units := YearData.units d + u\<rparr>)
          else (yr, d)) yd = yd"
  by (induction yd) auto

lemma bump_present_invested:
  "distinct (map fst yd) \<Longrightarrow> y \<in> fst ` set yd \<Longrightarrow>
   sum_list (map (\<lambda>e. YearData.invested (snd e))
     (map (\<lambda>(yr, d). if yr = y
          then (yr, d\<lparr>YearData.invested := YearData.invested d + a, YearData.units := YearData.units d + u\<rparr>)
          else (yr, d)) yd))
   = sum_list (map (\<lambda>e. YearData.invested (snd e)) yd) + a"
proof (induction yd)
  case Nil
  then show ?case by simp
next
  case (Cons e yd)
  obtain k d where e: "e = (k, d)" by (cases e)
  show ?case
  proof (cases "k = y")
    case True
    then have "y \<notin> fst ` set yd" using Cons.prems(1) e by auto
    then show ?thesis using True e by (simp add: bump_absent)
  next
    case False
    then have "y \<in> fst ` set yd" using Cons.prems(2) e by auto
    then show ?thesis using False e Cons.IH Cons.prems(1) by simp
  qed
qed

lemma addYearly_invested:
  assumes "distinct (map fst yd)"
  shows "sum_list (map (\<lambda>e. YearData.invested (snd e)) (addYearly y a u yd))
       = sum_list (map (\<lambda>e. YearData.invested (snd e)) yd) + a"
proof (cases "map_of yd y = None")
  case True
  then have ab: "y \<notin> fst ` set yd" by (simp add: map_of_eq_None_iff)
  have "addYearly y a u yd
      = map (\<lambda>(yr, d). if yr = y
          then (yr, d\<lparr>YearData.invested := YearData.invested d + a, YearData.units := YearData.units d + u\<rparr>)
          else (yr, d)) yd @ [(y, \<lparr>YearData.invested = a, YearData.units = u\<rparr>)]"
    using True by (simp add: addYearly_def Let_def)
  then have "addYearly y a u yd = yd @ [(y, \<lparr>YearData.invested = a, YearData.units = u\<rparr>)]"
    by (simp only: bump_absent [OF ab])
  then show ?thesis by simp
next
  case False
  then have pr: "y \<in> fst ` set yd" by (simp add: map_of_eq_None_iff)
  have "addYearly y a u yd
      = map (\<lambda>(yr, d). if yr = y
          then (yr, d\<lparr>YearData.invested := YearData.invested d + a, YearData.units := YearData.units d + u\<rparr>)
          else (yr, d)) yd"
    using False by (simp add: addYearly_def Let_def)
  then show ?thesis
    by (simp only: bump_present_invested [OF assms pr])
qed

lemma sum_list_sort:
  fixes f :: "int \<Rightarrow> real"
  shows "sum_list (map f (sort ks)) = sum_list (map f ks)"
proof -
  have "sum_list (map f (sort ks)) = sum_mset (mset (map f (sort ks)))"
    by (simp only: sum_mset_sum_list)
  also have "\<dots> = sum_mset (mset (map f ks))"
    by simp
  also have "\<dots> = sum_list (map f ks)"
    by (simp only: sum_mset_sum_list)
  finally show ?thesis .
qed

lemma lookup_own_keys:
  "distinct (map fst al) \<Longrightarrow>
   map (\<lambda>k. g (the (map_of al k))) (map fst al) = map (\<lambda>e. g (snd e)) al"
  by (induction al) (auto simp: image_iff)

lemma sortedYears_keys:
  "yr \<in> set (sortedYears yearly) \<Longrightarrow> map_of yearly yr \<noteq> None"
  by (auto simp: sortedYears_def map_of_eq_None_iff)

section \<open>Exact arithmetic as an instance\<close>

text \<open>
  In exact arithmetic, and for a whole number of years, the computations in a given
  arithmetic are the ones modelled first.
\<close>

lemma exact_ops [simp]:
  "addN exactArith x y = x + y" "subN exactArith x y = x - y"
  "mulN exactArith x y = x * y" "divN exactArith x y = x / y"
  by (simp_all add: addN_def subN_def mulN_def divN_def exactArith_def)

lemma exactPow_nat: "pow exactArith b (real k) = b ^ k"
  by (simp add: exactArith_def exactPow_def)

lemma stepUpMonths_fl_exact:
  "month \<le> 12 \<Longrightarrow> 12 \<le> R \<Longrightarrow>
   stepUpMonths_fl exactArith r a (real R) month (ti, fv) = stepUpMonths r a R month (ti, fv)"
proof (induction "12 - month" arbitrary: month ti fv)
  case 0
  then have "\<not> month < 12" by simp
  then show ?case
    by (subst stepUpMonths_fl.simps, subst stepUpMonths.simps) simp
next
  case (Suc n)
  then have lt: "month < 12" and le: "month + 1 \<le> 12" and n: "n = 12 - (month + 1)"
    by simp_all
  have e: "real R - real month = real (R - month)"
    using lt Suc.prems(2) by simp
  show ?case
    apply (subst stepUpMonths_fl.simps, subst stepUpMonths.simps)
    apply (simp only: lt if_True Let_def exact_ops e exactPow_nat)
    apply (rule Suc.hyps(1) [OF n le Suc.prems(2)])
    done
qed

lemma stepUpYears_fl_exact:
  "yr \<le> n \<Longrightarrow>
   stepUpYears_fl exactArith r p (real n) yr (ti, fv, a) = stepUpYears r p n yr (ti, fv, a)"
proof (induction "n - yr" arbitrary: yr ti fv a)
  case 0
  then have "\<not> yr < n" by simp
  then show ?case
    by (subst stepUpYears_fl.simps, subst stepUpYears.simps) simp
next
  case (Suc k)
  then have lt: "yr < n" and le: "yr + 1 \<le> n" and k: "k = n - (yr + 1)"
    by simp_all
  have R: "(real n - real yr) * 12 = real ((n - yr) * 12)" "12 \<le> (n - yr) * 12"
    using lt by simp_all
  have lt': "real yr < real n" using lt by simp
  obtain ti' fv' where m: "stepUpMonths r a ((n - yr) * 12) 0 (ti, fv) = (ti', fv')"
    by (cases "stepUpMonths r a ((n - yr) * 12) 0 (ti, fv)")
  then have m': "stepUpMonths_fl exactArith r a (real ((n - yr) * 12)) 0 (ti, fv) = (ti', fv')"
    using stepUpMonths_fl_exact [of 0 "(n - yr) * 12" r a ti fv] R(2) by simp
  show ?case
    apply (subst stepUpYears_fl.simps, subst stepUpYears.simps)
    apply (simp only: lt lt' if_True Let_def exact_ops R(1) m m' prod.case)
    apply (rule Suc.hyps(1) [OF k le])
    done
qed

lemma projection_fl_exact: "projection_fl exactArith ti fv = projection ti fv"
  by (simp add: projection_fl_def projection_def)

lemma FutureProjection_result_fl_exact:
  "FutureProjection_result_fl exactArith t amount (real n) annualReturn p
     = FutureProjection_result t amount n annualReturn p"
proof -
  have m: "real n * 12 = real (n * 12)" by simp
  show ?thesis
    unfolding FutureProjection_result_fl_def FutureProjection_result_def
    by (simp only: exact_ops m exactPow_nat projection_fl_exact Let_def
          stepUpYears_fl_exact [of 0 n, OF le0] of_nat_eq_0_iff of_nat_0)
qed

lemma applyStepUp_fl_exact:
  "0 \<le> yearCounter st \<Longrightarrow>
   applyStepUp_fl exactArith t amount p sy st = applyStepUp t amount p sy st"
  by (simp add: applyStepUp_fl_def applyStepUp_def Let_def exactArith_def exactPow_def
      power_int_nonneg_exp mulN_def addN_def divN_def)

lemma applyStepUp_yearCounter:
  "0 \<le> yearCounter st \<Longrightarrow> 0 \<le> yearCounter (applyStepUp t amount p sy st)"
  by (simp add: applyStepUp_def Let_def)

lemma addYearly_fl_unrounded:
  assumes "\<forall>x. rnd A x = x"
  shows "addYearly_fl A y a u yd = addYearly y a u yd"
proof -
  have "addN A x z = x + z" for x z
    using assms by (simp add: addN_def)
  then show ?thesis
    unfolding addYearly_fl_def addYearly_def by presburger
qed

lemma invest_fl_exact: "invest_fl exactArith navData env st = invest navData env st"
proof -
  have "\<forall>x. rnd exactArith x = x" by (simp add: exactArith_def)
  then show ?thesis
    by (simp add: invest_fl_def invest_def addYearly_fl_unrounded split: option.splits)
qed

lemma sipBody_fl_exact:
  "0 \<le> yearCounter st \<Longrightarrow>
   sipBody_fl exactArith navData env t amount p sy st = sipBody navData env t amount p sy st"
  by (simp add: sipBody_fl_def sipBody_def applyStepUp_fl_exact invest_fl_exact)

lemma sipBody_yearCounter:
  "0 \<le> yearCounter st \<Longrightarrow> 0 \<le> yearCounter (sipBody navData env t amount p sy st)"
  using applyStepUp_yearCounter [of st t amount p sy]
  by (simp add: sipBody_def Let_def invest_keeps)

lemma sipLoop_fl_exact:
  "0 \<le> yearCounter st \<Longrightarrow>
   sipLoop_fl exactArith navData env t amount p sy st = sipLoop navData env t amount p sy st"
proof (induction "nat (endDate env + 1 - currentDate st)" arbitrary: st)
  case 0
  then have "\<not> currentDate st \<le> endDate env" by simp
  then show ?case by (subst sipLoop_fl.simps, subst sipLoop.simps) simp
next
  case (Suc n)
  let ?b = "sipBody navData env t amount p sy"
  have le: "currentDate st \<le> endDate env" using Suc.hyps(2) by simp
  have n: "n = nat (endDate env + 1 - currentDate (?b st))"
    using Suc.hyps(2) by (simp add: currentDate_sipBody)
  have yc: "0 \<le> yearCounter (?b st)"
    using Suc.prems by (rule sipBody_yearCounter)
  show ?case
    apply (subst sipLoop_fl.simps, subst sipLoop.simps)
    apply (simp only: le if_True sipBody_fl_exact [OF Suc.prems])
    apply (rule Suc.hyps(1) [OF n yc])
    done
qed

lemma buildBreakdown_fl_exact:
  "buildBreakdown_fl exactArith navData env yearly ks ci cu = buildBreakdown navData env yearly ks ci cu"
  by (induction ks arbitrary: ci cu) (simp_all add: Let_def split: option.splits)

text \<open>In exact arithmetic the computation in a given arithmetic is the one modelled first.\<close>

lemma PastAnalysis_result_fl_exact:
  "PastAnalysis_result_fl exactArith env navData t amount p selectedYear selectedMonth
     = PastAnalysis_result env navData t amount p selectedYear selectedMonth"
proof -
  have loop: "sipLoop_fl exactArith navData env t amount p sy (sipInit d amount)
      = sipLoop navData env t amount p sy (sipInit d amount)" for sy d
    by (rule sipLoop_fl_exact) (simp add: sipInit_def)
  have s: "sipResult_fl exactArith navData env t amount p d = sipResult navData env t amount p d" for d
    by (simp add: sipResult_fl_def sipResult_def loop buildBreakdown_fl_exact Let_def)
  have row: "oneTimeRow_fl exactArith navData env amount u sy = oneTimeRow navData env amount u sy" for u sy
    by (rule ext) (simp add: oneTimeRow_fl_def oneTimeRow_def Let_def)
  have o: "oneTimeResult_fl exactArith navData env amount d = oneTimeResult navData env amount d" for d
    by (simp add: oneTimeResult_fl_def oneTimeResult_def row Let_def split: option.splits)
  show ?thesis
    by (simp add: PastAnalysis_result_fl_def PastAnalysis_result_def s o Let_def)
qed

lemma roundingArith_exact: "roundingArith exactArith"
  by (simp add: roundingArith_def exactArith_def exactPow_def zero_le_power_int)

section \<open>Step-up projection without step-up, for any number of years\<close>

text \<open>
  The invested total of the step-up loops does not depend on the power: the inner loop adds
  the current amount twelve times, and for one and a half years the outer loop runs twice.
\<close>

lemma stepUpMonths_fl_invested:
  "month \<le> 12 \<Longrightarrow>
   fst (stepUpMonths_fl A r a R month (ti, fv)) = ((\<lambda>t. addN A t a) ^^ (12 - month)) ti"
proof (induction "12 - month" arbitrary: month ti fv)
  case 0
  then have "\<not> month < 12" by simp
  then show ?case using 0 by (subst stepUpMonths_fl.simps) simp
next
  case (Suc n)
  then have lt: "month < 12" and le: "month + 1 \<le> 12" and n: "n = 12 - (month + 1)"
    by simp_all
  have d: "12 - month = Suc (12 - (month + 1))" using lt by simp
  show ?case
    apply (subst stepUpMonths_fl.simps)
    apply (simp only: lt if_True Let_def)
    apply (subst Suc.hyps(1) [OF n le])
    apply (simp only: d funpow_Suc_right o_apply)
    done
qed

lemma stepUpYears_fl_three_halves:
  "fst (stepUpYears_fl A r p (3 / 2) 0 (0, 0, a))
     = ((\<lambda>t. addN A t (mulN A a (addN A 1 (divN A p 100)))) ^^ 12) (((\<lambda>t. addN A t a) ^^ 12) 0)"
proof -
  obtain t1 f1 where m1: "stepUpMonths_fl A r a (mulN A (subN A (3 / 2) (real 0)) 12) 0 (0, 0) = (t1, f1)"
    by (cases "stepUpMonths_fl A r a (mulN A (subN A (3 / 2) (real 0)) 12) 0 (0, 0)")
  let ?a1 = "mulN A a (addN A 1 (divN A p 100))"
  obtain t2 f2 where m2: "stepUpMonths_fl A r ?a1 (mulN A (subN A (3 / 2) (real (0 + 1))) 12) 0 (t1, f1) = (t2, f2)"
    by (cases "stepUpMonths_fl A r ?a1 (mulN A (subN A (3 / 2) (real (0 + 1))) 12) 0 (t1, f1)")
  have "fst (stepUpMonths_fl A r a (mulN A (subN A (3 / 2) (real 0)) 12) 0 (0, 0))
      = ((\<lambda>t. addN A t a) ^^ (12 - 0)) 0"
    by (rule stepUpMonths_fl_invested) simp
  then have t1: "t1 = ((\<lambda>t. addN A t a) ^^ 12) 0"
    by (simp only: m1 fst_conv diff_zero)
  have "fst (stepUpMonths_fl A r ?a1 (mulN A (subN A (3 / 2) (real (0 + 1))) 12) 0 (t1, f1))
      = ((\<lambda>t. addN A t ?a1) ^^ (12 - 0)) t1"
    by (rule stepUpMonths_fl_invested) simp
  then have t2: "t2 = ((\<lambda>t. addN A t ?a1) ^^ 12) t1"
    by (simp only: m2 fst_conv diff_zero)
  have c0: "real 0 < (3 / 2 :: real)" and c1: "real (0 + 1) < (3 / 2 :: real)"
    and c2: "\<not> real (0 + 1 + 1) < (3 / 2 :: real)"
    by simp_all
  have "stepUpYears_fl A r p (3 / 2) 0 (0, 0, a)
      = stepUpYears_fl A r p (3 / 2) (0 + 1) (t1, f1, ?a1)"
    by (subst stepUpYears_fl.simps) (simp only: c0 if_True Let_def m1 prod.case)
  also have "\<dots> = stepUpYears_fl A r p (3 / 2) (0 + 1 + 1) (t2, f2, mulN A ?a1 (addN A 1 (divN A p 100)))"
    by (subst stepUpYears_fl.simps) (simp only: c1 if_True Let_def m2 prod.case)
  also have "\<dots> = (t2, f2, mulN A ?a1 (addN A 1 (divN A p 100)))"
    by (subst stepUpYears_fl.simps) (simp only: c2 if_False)
  finally show ?thesis by (simp add: t1 t2)
qed




section \<open>The yearly breakdown in a given arithmetic\<close>

lemma currentDate_sipBody_fl:
  "currentDate (sipBody_fl A navData env investmentType amount stepUpPercent startYear st)
     = currentDate st + 1"
  by (simp add: sipBody_fl_def invest_fl_def applyStepUp_fl_def Let_def split: option.splits)

lemma sipLoop_fl_funpow:
  "sipLoop_fl A navData env investmentType amount stepUpPercent startYear st
     = (sipBody_fl A navData env investmentType amount stepUpPercent startYear
          ^^ nat (endDate env + 1 - currentDate st)) st"
proof (induction "nat (endDate env + 1 - currentDate st)" arbitrary: st)
  case 0
  then have "\<not> currentDate st \<le> endDate env" by simp
  then show ?case using 0 by (subst sipLoop_fl.simps) simp
next
  case (Suc n)
  let ?b = "sipBody_fl A navData env investmentType amount stepUpPercent startYear"
  have le: "currentDate st \<le> endDate env" using Suc.hyps(2) by simp
  have n: "n = nat (endDate env + 1 - currentDate (?b st))"
    using Suc.hyps(2) by (simp add: currentDate_sipBody_fl)
  have "sipLoop_fl A navData env investmentType amount stepUpPercent startYear st
      = sipLoop_fl A navData env investmentType amount stepUpPercent startYear (?b st)"
    using le by (subst sipLoop_fl.simps) simp
  also have "\<dots> = (?b ^^ n) (?b st)"
    using Suc.hyps(1) [OF n] n by simp
  also have "\<dots> = (?b ^^ Suc n) st"
    by (simp only: funpow_Suc_right o_apply)
  finally show ?case using Suc.hyps(2) by simp
qed

lemma addYearly_fl_keys:
  "map fst (addYearly_fl A y a u yd) = (if map_of yd y = None then map fst yd @ [y] else map fst yd)"
  by (auto simp: addYearly_fl_def Let_def split: prod.splits)

lemma addYearly_fl_distinct:
  "distinct (map fst yd) \<Longrightarrow> distinct (map fst (addYearly_fl A y a u yd))"
  by (auto simp: addYearly_fl_keys map_of_eq_None_iff)

lemma invest_fl_invariant:
  assumes "distinct (map fst (yearlyData st))"
    and "(\<forall>x. rnd A x = x) \<longrightarrow>
         sum_list (map (\<lambda>e. YearData.invested (snd e)) (yearlyData st)) = SipState.totalInvested st"
  shows "distinct (map fst (yearlyData (invest_fl A navData env st)))
    \<and> ((\<forall>x. rnd A x = x) \<longrightarrow>
         sum_list (map (\<lambda>e. YearData.invested (snd e)) (yearlyData (invest_fl A navData env st)))
           = SipState.totalInvested (invest_fl A navData env st))"
proof (intro conjI impI)
  show "distinct (map fst (yearlyData (invest_fl A navData env st)))"
    using assms(1) by (auto simp: invest_fl_def Let_def addYearly_fl_distinct split: option.splits)
  assume x: "\<forall>x. rnd A x = x"
  then have s: "sum_list (map (\<lambda>e. YearData.invested (snd e)) (yearlyData st))
      = SipState.totalInvested st"
    using assms(2) by blast
  show "sum_list (map (\<lambda>e. YearData.invested (snd e)) (yearlyData (invest_fl A navData env st)))
           = SipState.totalInvested (invest_fl A navData env st)"
    using s x assms(1)
    by (auto simp: invest_fl_def Let_def addYearly_fl_unrounded addYearly_invested addN_def
        split: option.splits)
qed

lemma applyStepUp_fl_keeps:
  "yearlyData (applyStepUp_fl A t amount p sy st) = yearlyData st"
  "SipState.totalInvested (applyStepUp_fl A t amount p sy st) = SipState.totalInvested st"
  "currentDate (applyStepUp_fl A t amount p sy st) = currentDate st"
  by (simp_all add: applyStepUp_fl_def Let_def)

lemma sipBody_fl_fields:
  "yearlyData (sipBody_fl A navData env t amount p sy st)
     = yearlyData (invest_fl A navData env (applyStepUp_fl A t amount p sy st))"
  "currentAmount (sipBody_fl A navData env t amount p sy st)
     = currentAmount (invest_fl A navData env (applyStepUp_fl A t amount p sy st))"
  "SipState.totalInvested (sipBody_fl A navData env t amount p sy st)
     = SipState.totalInvested (invest_fl A navData env (applyStepUp_fl A t amount p sy st))"
  by (simp_all add: sipBody_fl_def Let_def)

lemma funpow_fl_invariant:
  "distinct (map fst (yearlyData ((sipBody_fl A navData env t amount p sy ^^ n) (sipInit startDate amount))))
    \<and> ((\<forall>x. rnd A x = x) \<longrightarrow>
         sum_list (map (\<lambda>e. YearData.invested (snd e))
           (yearlyData ((sipBody_fl A navData env t amount p sy ^^ n) (sipInit startDate amount))))
         = SipState.totalInvested ((sipBody_fl A navData env t amount p sy ^^ n) (sipInit startDate amount)))"
proof (induction n)
  case 0
  show ?case by (simp add: sipInit_def)
next
  case (Suc n)
  let ?st = "(sipBody_fl A navData env t amount p sy ^^ n) (sipInit startDate amount)"
  let ?st' = "applyStepUp_fl A t amount p sy ?st"
  have a: "distinct (map fst (yearlyData ?st'))"
    and b: "(\<forall>x. rnd A x = x) \<longrightarrow>
         sum_list (map (\<lambda>e. YearData.invested (snd e)) (yearlyData ?st')) = SipState.totalInvested ?st'"
    using Suc.IH by (simp_all add: applyStepUp_fl_keeps)
  from invest_fl_invariant [OF a b, of navData env]
  show ?case
    by (simp only: funpow.simps o_apply sipBody_fl_fields) blast
qed

text \<open>Rounded amounts and units stay non-negative.\<close>

lemma rnd_nonneg: "roundingArith A \<Longrightarrow> 0 \<le> x \<Longrightarrow> 0 \<le> rnd A x"
  unfolding roundingArith_def by metis

lemma applyStepUp_fl_nonneg:
  assumes "roundingArith A" and "0 \<le> amount" and "- 100 \<le> p" and "0 \<le> currentAmount st"
  shows "0 \<le> currentAmount (applyStepUp_fl A t amount p sy st)"
proof -
  have "- 1 \<le> p / 100" using assms(3) by simp
  then have "rnd A (- 1) \<le> rnd A (p / 100)"
    using assms(1) unfolding roundingArith_def by blast
  then have "0 \<le> 1 + rnd A (p / 100)"
    using assms(1) unfolding roundingArith_def by simp
  then have "0 \<le> rnd A (1 + rnd A (p / 100))"
    by (rule rnd_nonneg [OF assms(1)])
  then have "0 \<le> pow A (rnd A (1 + rnd A (p / 100))) e" for e
    using assms(1) unfolding roundingArith_def by blast
  then have "0 \<le> amount * pow A (rnd A (1 + rnd A (p / 100))) e" for e
    using assms(2) by simp
  then have "0 \<le> rnd A (amount * pow A (rnd A (1 + rnd A (p / 100))) e)" for e
    by (rule rnd_nonneg [OF assms(1)])
  then show ?thesis
    using assms(4) by (simp add: applyStepUp_fl_def Let_def mulN_def addN_def divN_def)
qed

lemma addYearly_fl_nonneg:
  assumes "roundingArith A"
    and "\<forall>e \<in> set yd. 0 \<le> YearData.invested (snd e) \<and> 0 \<le> YearData.units (snd e)"
    and "0 \<le> a" and "0 \<le> u"
  shows "\<forall>e \<in> set (addYearly_fl A y a u yd).
           0 \<le> YearData.invested (snd e) \<and> 0 \<le> YearData.units (snd e)"
  using assms(2-4) rnd_nonneg [OF assms(1)]
  by (auto simp: addYearly_fl_def Let_def addN_def split: if_splits)

lemma invest_fl_keeps:
  "currentAmount (invest_fl A navData env st) = currentAmount st"
  by (simp add: invest_fl_def Let_def split: option.splits)

lemma invest_fl_nonneg:
  assumes "roundingArith A"
    and "\<forall>e \<in> set (yearlyData st). 0 \<le> YearData.invested (snd e) \<and> 0 \<le> YearData.units (snd e)"
    and "0 \<le> currentAmount st" and "\<forall>e \<in> set navData. 0 < nav e"
  shows "\<forall>e \<in> set (yearlyData (invest_fl A navData env st)).
           0 \<le> YearData.invested (snd e) \<and> 0 \<le> YearData.units (snd e)"
proof (cases "findNearestNav navData (dateTime env (currentDate st))")
  case None
  then show ?thesis using assms(2) by (simp add: invest_fl_def)
next
  case (Some r)
  have "navData \<noteq> []" using Some by (auto simp: findNearestNav_def)
  from findNearestNav_nonempty [OF this, of "dateTime env (currentDate st)"] Some
  have "r \<in> set navData" by simp
  then have "0 \<le> currentAmount st / nav r" using assms(3,4) by (simp add: less_imp_le)
  then have "0 \<le> divN A (currentAmount st) (nav r)"
    unfolding divN_def by (rule rnd_nonneg [OF assms(1)])
  from addYearly_fl_nonneg [OF assms(1) assms(2) assms(3) this]
  show ?thesis using Some by (simp add: invest_fl_def Let_def)
qed

lemma funpow_fl_nonneg:
  assumes "roundingArith A" and "0 \<le> amount" and "- 100 \<le> p" and "\<forall>e \<in> set navData. 0 < nav e"
  shows "0 \<le> currentAmount ((sipBody_fl A navData env t amount p sy ^^ n) (sipInit startDate amount))
    \<and> (\<forall>e \<in> set (yearlyData ((sipBody_fl A navData env t amount p sy ^^ n) (sipInit startDate amount))).
           0 \<le> YearData.invested (snd e) \<and> 0 \<le> YearData.units (snd e))"
proof (induction n)
  case 0
  show ?case using assms(2) by (simp add: sipInit_def)
next
  case (Suc n)
  let ?st = "(sipBody_fl A navData env t amount p sy ^^ n) (sipInit startDate amount)"
  let ?st' = "applyStepUp_fl A t amount p sy ?st"
  have ca: "0 \<le> currentAmount ?st'"
    using applyStepUp_fl_nonneg [OF assms(1,2,3)] Suc.IH by blast
  have yd: "\<forall>e \<in> set (yearlyData ?st'). 0 \<le> YearData.invested (snd e) \<and> 0 \<le> YearData.units (snd e)"
    using Suc.IH by (simp add: applyStepUp_fl_keeps)
  have "0 \<le> currentAmount (invest_fl A navData env ?st')"
    using ca by (simp add: invest_fl_keeps)
  moreover note invest_fl_nonneg [OF assms(1) yd ca assms(4), of env]
  ultimately show ?case
    by (simp only: funpow.simps o_apply sipBody_fl_fields simp_thms)
qed

lemma buildBreakdown_fl_rows:
  "\<forall>k \<in> set ks. map_of yearly k \<noteq> None \<Longrightarrow>
   map year (buildBreakdown_fl A navData env yearly ks ci cu) = ks
   \<and> map YearlyBreakdown.invested (buildBreakdown_fl A navData env yearly ks ci cu)
       = map (\<lambda>k. YearData.invested (the (map_of yearly k))) ks"
proof (induction ks arbitrary: ci cu)
  case Nil
  show ?case by simp
next
  case (Cons k ks)
  then obtain d where d: "map_of yearly k = Some d" by auto
  have "\<forall>k \<in> set ks. map_of yearly k \<noteq> None" using Cons.prems by simp
  from Cons.IH [OF this] show ?case
    by (simp add: d Let_def)
qed

lemma buildBreakdown_fl_cumulative:
  assumes "roundingArith A"
  shows "\<forall>k \<in> set ks. \<exists>d. map_of yearly k = Some d \<and> 0 \<le> YearData.invested d \<and> 0 \<le> YearData.units d \<Longrightarrow>
   rnd A ci = ci \<Longrightarrow> rnd A cu = cu \<Longrightarrow>
   sorted (map cumulativeInvested (buildBreakdown_fl A navData env yearly ks ci cu))
   \<and> (\<forall>b \<in> set (buildBreakdown_fl A navData env yearly ks ci cu). ci \<le> cumulativeInvested b)
   \<and> sorted (map cumulativeUnits (buildBreakdown_fl A navData env yearly ks ci cu))
   \<and> (\<forall>b \<in> set (buildBreakdown_fl A navData env yearly ks ci cu). cu \<le> cumulativeUnits b)"
proof (induction ks arbitrary: ci cu)
  case Nil
  show ?case by simp
next
  case (Cons k ks)
  then obtain d where d: "map_of yearly k = Some d" "0 \<le> YearData.invested d" "0 \<le> YearData.units d"
    by auto
  have rest: "\<forall>k \<in> set ks. \<exists>d. map_of yearly k = Some d \<and> 0 \<le> YearData.invested d \<and> 0 \<le> YearData.units d"
    using Cons.prems(1) by simp
  have mono: "x \<le> y \<Longrightarrow> rnd A x \<le> rnd A y" for x y
    using assms unfolding roundingArith_def by blast
  have idem: "rnd A (rnd A x) = rnd A x" for x
    using assms unfolding roundingArith_def by blast
  let ?ci = "addN A ci (YearData.invested d)"
  let ?cu = "addN A cu (YearData.units d)"
  have ci: "ci \<le> ?ci"
    using mono [of ci "ci + YearData.invested d"] d(2) Cons.prems(2) by (simp add: addN_def)
  have cu: "cu \<le> ?cu"
    using mono [of cu "cu + YearData.units d"] d(3) Cons.prems(3) by (simp add: addN_def)
  have fp: "rnd A ?ci = ?ci" "rnd A ?cu = ?cu"
    by (simp_all add: addN_def idem)
  note ih = Cons.IH [OF rest fp]
  show ?case
    using ih ci cu by (fastforce simp: d(1) Let_def)
qed




end
